theory Spec2Isabelle
  imports Main "HOL-Library.AList"
begin

section \<open>Data model of \<open>ward/testing.py\<close>\<close>

text \<open>
  The type variables stand for what the program treats as opaque:
  \<open>'v\<close> the Python values that literals and fixture factories produce,
  \<open>'x\<close> the exception objects a factory may raise,
  \<open>'g\<close> suspended generator objects, and
  \<open>'w\<close> everything outside the program that a factory can read or change.
\<close>

text \<open>
  Modelled from the spec: \<open>ward/fixtures.py\<close> (\<open>Scope\<close>) is not among the sources.
  The spec gives the three scopes \<open>Test\<close>, \<open>Module\<close> and \<open>Global\<close>.
\<close>

datatype Scope = Test | Module | Global

text \<open>
  Modelled from the spec: \<open>ward/models.py\<close> (\<open>Marker\<close>, \<open>SkipMarker\<close>, \<open>XfailMarker\<close>,
  \<open>WardMeta\<close>) is not among the sources. A marker tags a test as skip or expected failure and
  carries an optional reason; \<open>WardMeta\<close> is the metadata object hung on a function, built in
  the source by \<open>WardMeta(marker=...)\<close> and \<open>WardMeta(description=...)\<close>, every field not given
  taking its default.
\<close>

datatype Marker = SkipMarker "string option" | XfailMarker "string option"

record WardMeta =
  meta_marker :: "Marker option"
  meta_description :: "string option"
  meta_is_fixture :: bool

definition WardMeta_init :: "Marker option \<Rightarrow> string option \<Rightarrow> WardMeta" where
  "WardMeta_init m d = \<lparr>meta_marker = m, meta_description = d, meta_is_fixture = False\<rparr>"

text \<open>
  What a call of a fixture factory can do: return a value or raise. \<open>Exc\<close> is an instance
  of \<open>Exception\<close> (what \<open>except Exception\<close> catches), \<open>BaseExc\<close> any other
  \<open>BaseException\<close> (\<open>KeyboardInterrupt\<close>, \<open>SystemExit\<close>).
\<close>

datatype 'x py_raise = Exc 'x | BaseExc 'x

text \<open>
  The callable behind a fixture. A plain function called with keyword arguments in a world
  returns a value or raises, and leaves a new world. For a generator function the model
  gives the outcome of creating the generator and resuming it once (\<open>next\<close>): the first
  value yielded together with the suspended generator, or what was raised
  (\<open>StopIteration\<close> when the generator ends without yielding).
  A keyword argument is the \<open>resolved_val\<close> attribute of a \<open>Fixture\<close>, so it has the
  attribute's type.
\<close>

type_synonym 'v kwargs = "(string \<times> 'v option) list"

datatype ('v, 'x, 'g, 'w) fn_body =
  Function "'v kwargs \<Rightarrow> 'w \<Rightarrow> ('x py_raise + 'v) \<times> 'w"
| GeneratorFunction "'v kwargs \<Rightarrow> 'w \<Rightarrow> ('x py_raise + 'v \<times> 'g) \<times> 'w"

text \<open>
  A function object decorated as a fixture: its identity (the \<open>key\<close> of the \<open>Fixture\<close>
  that wraps it), its \<open>__name__\<close>, the scope in its metadata, its signature (each parameter
  with its default, \<open>None\<close> for a parameter without one) and its body. The default of a
  fixture's parameter is itself a fixture function: the source hands each one to
  \<open>_resolve_single_fixture\<close> without looking at it.
\<close>

datatype ('v, 'x, 'g, 'w) fixture_fn =
  FixtureFn
    (fn_key: string)
    (fn_name: string)
    (fn_scope: Scope)
    (fn_params: "(string \<times> ('v, 'x, 'g, 'w) fixture_fn option) list")
    (fn_body: "('v, 'x, 'g, 'w) fn_body")

text \<open>
  A default value in a test's signature: an \<open>Each\<close> (class \<open>Each\<close>, field \<open>args\<close>), a
  function marked as a fixture (\<open>hasattr(arg, "ward_meta") and arg.ward_meta.is_fixture\<close>),
  or anything else.
\<close>

datatype ('v, 'x, 'g, 'w) pyval =
  Literal 'v
| FixtureFactory "('v, 'x, 'g, 'w) fixture_fn"
| Each "('v, 'x, 'g, 'w) pyval list"

text \<open>
  A function object as the test machinery sees it: \<open>__name__\<close>, \<open>__module__\<close>, the
  \<open>ward_meta\<close> attribute when it has one, the signature, and \<open>__wrapped__\<close> when
  \<open>functools.wraps\<close> made it. Its body is not modelled: nothing here calls it.
\<close>

datatype ('v, 'x, 'g, 'w) py_func =
  PyFunc
    (f_name: string)
    (f_module: string)
    (f_ward_meta: "WardMeta option")
    (f_params: "(string \<times> ('v, 'x, 'g, 'w) pyval option) list")
    (f_wrapped: "('v, 'x, 'g, 'w) py_func option")

text \<open>The dataclass \<open>Test\<close>. The field \<open>id\<close> is \<open>test_id\<close> here.\<close>

record ('v, 'x, 'g, 'w) Test =
  fn :: "('v, 'x, 'g, 'w) py_func"
  "module_name" :: string
  test_id :: string
  marker :: "Marker option"
  description :: "string option"

text \<open>
  The exceptions that leave the modelled methods. \<open>FixtureError msg e\<close> is
  \<open>raise FixtureError(msg) from e\<close>: \<open>e\<close> is the chained cause. \<open>Uncaught e\<close> is a
  \<open>BaseException\<close> of a factory that \<open>except Exception\<close> lets through.
\<close>

datatype 'x error =
  FixtureError string 'x
| ParameterisationError string
| IndexError
| Uncaught 'x

section \<open>Parameterisation\<close>

text \<open>\<open>Each.__getitem__\<close>: indexing the tuple \<open>args\<close>; a negative index counts from the end.\<close>

definition Each_getitem :: "'a list \<Rightarrow> int \<Rightarrow> 'x error + 'a" where
  "Each_getitem args i =
     (if 0 \<le> i \<and> i < int (length args) then Inr (args ! nat i)
      else if i < 0 \<and> - int (length args) \<le> i then Inr (args ! nat (int (length args) + i))
      else Inl IndexError)"

text \<open>
  \<open>signature.bind_partial()\<close> followed by \<open>apply_defaults()\<close>: the parameters that have a
  default, in signature order, each with its default. (A \<open>*args\<close> or \<open>**kwargs\<close>
  parameter is given \<open>()\<close> or \<open>{}\<close> by \<open>apply_defaults\<close>; here it is a parameter with
  that literal as its default.) Parameter names do not repeat in a Python signature, so
  the list of pairs is the dict.
\<close>

fun apply_defaults :: "(string \<times> 'a option) list \<Rightarrow> (string \<times> 'a) list" where
  "apply_defaults [] = []"
| "apply_defaults ((n, None) # ps) = apply_defaults ps"
| "apply_defaults ((n, Some d) # ps) = (n, d) # apply_defaults ps"

definition get_default_args ::
  "('v, 'x, 'g, 'w) Test \<Rightarrow> (string \<times> ('v, 'x, 'g, 'w) pyval) list" where
  "get_default_args t = apply_defaults (f_params (fn t))"

definition name :: "('v, 'x, 'g, 'w) Test \<Rightarrow> string" where
  "name t = f_name (fn t)"

fun isinstance_Each :: "('v, 'x, 'g, 'w) pyval \<Rightarrow> bool" where
  "isinstance_Each (Each args) = True"
| "isinstance_Each _ = False"

definition is_parameterised :: "('v, 'x, 'g, 'w) Test \<Rightarrow> bool" where
  "is_parameterised t = list_ex isinstance_Each (map snd (get_default_args t))"

text \<open>\<open>[len(arg) for _, arg in default_args.items() if isinstance(arg, Each)]\<close>\<close>

fun each_lengths :: "(string \<times> ('v, 'x, 'g, 'w) pyval) list \<Rightarrow> nat list" where
  "each_lengths [] = []"
| "each_lengths ((n, Each args) # ps) = length args # each_lengths ps"
| "each_lengths (_ # ps) = each_lengths ps"

text \<open>How an f-string prints an \<open>Optional[str]\<close>.\<close>

fun format_optional :: "string option \<Rightarrow> string" where
  "format_optional None = ''None''"
| "format_optional (Some d) = d"

definition parameterisation_message :: "('v, 'x, 'g, 'w) Test \<Rightarrow> string" where
  "parameterisation_message t =
     ''The test '' @ name t @ ''/'' @ format_optional (description t)
       @ '' is parameterised incorrectly. ''
       @ ''Please ensure all instances of '' @ [CHR 0x27] @ ''each'' @ [CHR 0x27]
       @ '' in the test signature ''
       @ ''are of equal length.''"

definition find_number_of_instances :: "('v, 'x, 'g, 'w) Test \<Rightarrow> 'x error + nat" where
  "find_number_of_instances t =
     (let default_args = get_default_args t;
          lengths = each_lengths default_args;
          is_valid = (length (remdups lengths) \<in> {0, 1})
      in if \<not> is_valid then Inl (ParameterisationError (parameterisation_message t))
         else (case lengths of [] \<Rightarrow> Inl IndexError | n # _ \<Rightarrow> Inr n))"

text \<open>
  \<open>generate_id\<close> is \<open>uuid.uuid4().hex\<close>. The model takes the values that \<open>uuid4\<close> hands
  out in a run as a sequence \<open>uuid\<close> and counts the draws: the state is the number of
  identifiers drawn so far.
\<close>

definition generate_id :: "(nat \<Rightarrow> string) \<Rightarrow> nat \<Rightarrow> string \<times> nat" where
  "generate_id uuid k = (uuid k, Suc k)"

text \<open>
  The loop of \<open>get_parameterised_instances\<close>: one \<open>Test(fn=..., module_name=...,
  marker=..., description=...)\<close> per instance number, whose \<open>id\<close> is the dataclass default
  \<open>generate_id()\<close>.
\<close>

fun generate_tests ::
  "(nat \<Rightarrow> string) \<Rightarrow> ('v, 'x, 'g, 'w) Test \<Rightarrow> nat \<Rightarrow> ('v, 'x, 'g, 'w) Test list \<Rightarrow> nat
     \<Rightarrow> ('v, 'x, 'g, 'w) Test list \<times> nat" where
  "generate_tests uuid t 0 generated_tests k = (generated_tests, k)"
| "generate_tests uuid t (Suc n) generated_tests k =
     (let (new_id, k') = generate_id uuid k
      in generate_tests uuid t n
           (generated_tests @
              [\<lparr>fn = fn t, module_name = module_name t, test_id = new_id,
                marker = marker t, description = description t\<rparr>]) k')"

definition get_parameterised_instances ::
  "(nat \<Rightarrow> string) \<Rightarrow> ('v, 'x, 'g, 'w) Test \<Rightarrow> nat
     \<Rightarrow> ('x error + ('v, 'x, 'g, 'w) Test list) \<times> nat" where
  "get_parameterised_instances uuid t k =
     (if \<not> is_parameterised t then (Inr [t], k)
      else (case find_number_of_instances t of
              Inl e \<Rightarrow> (Inl e, k)
            | Inr number_of_instances \<Rightarrow>
                (let (generated_tests, k') = generate_tests uuid t number_of_instances [] k
                 in (Inr generated_tests, k'))))"

section \<open>Fixtures and the fixture cache\<close>

text \<open>
  Modelled from the spec: \<open>ward/fixtures.py\<close> (\<open>Fixture\<close>, \<open>FixtureCache\<close>) is not among
  the sources. A \<open>Fixture\<close> wraps a fixture-producing callable and owns its resolution
  state: the resolved value, the handle of a suspended two-phase factory, and the test id and
  module name of its last resolution. The source builds it with \<open>Fixture(fixture_fn)\<close> and
  uses the attributes \<open>gen\<close>, \<open>resolved_val\<close>, \<open>last_resolved_test_id\<close>,
  \<open>last_resolved_module_name\<close>, \<open>key\<close>, \<open>scope\<close>, \<open>name\<close>, \<open>is_generator_fixture\<close> and
  \<open>deps()\<close>. The four attributes that are assigned are fields here, \<open>None\<close> until
  assigned; the others are read off the wrapped callable, here the field \<open>factory\<close>.
\<close>

record ('v, 'x, 'g, 'w) Fixture =
  factory :: "('v, 'x, 'g, 'w) fixture_fn"
  gen :: "'g option"
  resolved_val :: "'v option"
  last_resolved_test_id :: "string option"
  last_resolved_module_name :: "string option"

definition Fixture_init :: "('v, 'x, 'g, 'w) fixture_fn \<Rightarrow> ('v, 'x, 'g, 'w) Fixture" where
  "Fixture_init fixture_fn =
     \<lparr>factory = fixture_fn, gen = None, resolved_val = None,
      last_resolved_test_id = None, last_resolved_module_name = None\<rparr>"

definition key :: "('v, 'x, 'g, 'w) Fixture \<Rightarrow> string" where
  "key fixture = fn_key (factory fixture)"

definition scope :: "('v, 'x, 'g, 'w) Fixture \<Rightarrow> Scope" where
  "scope fixture = fn_scope (factory fixture)"

definition fixture_name :: "('v, 'x, 'g, 'w) Fixture \<Rightarrow> string" where
  "fixture_name fixture = fn_name (factory fixture)"

definition fixture_deps ::
  "('v, 'x, 'g, 'w) Fixture \<Rightarrow> (string \<times> ('v, 'x, 'g, 'w) fixture_fn option) list" where
  "fixture_deps fixture = fn_params (factory fixture)"

definition is_generator_fixture :: "('v, 'x, 'g, 'w) Fixture \<Rightarrow> bool" where
  "is_generator_fixture fixture =
     (case fn_body (factory fixture) of GeneratorFunction b \<Rightarrow> True | Function b \<Rightarrow> False)"

text \<open>
  Modelled from the spec: \<open>FixtureCache\<close> is a mapping from fixture key to \<open>Fixture\<close>;
  storing a \<open>Fixture\<close> overwrites any previous entry under the same key.
\<close>

type_synonym ('v, 'x, 'g, 'w) FixtureCache = "string \<rightharpoonup> ('v, 'x, 'g, 'w) Fixture"

definition cache_fixture ::
  "('v, 'x, 'g, 'w) FixtureCache \<Rightarrow> ('v, 'x, 'g, 'w) Fixture \<Rightarrow> ('v, 'x, 'g, 'w) FixtureCache" where
  "cache_fixture c fixture = c(key fixture \<mapsto> fixture)"

text \<open>
  What resolution reads and writes: the cache it is given, the world the factories act on,
  and a record of the factory calls made so far, oldest first. An entry of \<open>calls\<close> is the
  \<open>Fixture\<close> object as it is at the moment its factory is called, with the keyword
  arguments of the call. Nothing in the program reads \<open>calls\<close>; it is there so that
  which factories ran, and in which order, can be stated.
\<close>

record ('v, 'x, 'g, 'w) run_state =
  cache :: "('v, 'x, 'g, 'w) FixtureCache"
  world :: 'w
  calls :: "(('v, 'x, 'g, 'w) Fixture \<times> 'v kwargs) list"

section \<open>Resolution\<close>

definition deps ::
  "('v, 'x, 'g, 'w) Test \<Rightarrow> (string \<times> ('v, 'x, 'g, 'w) pyval option) list" where
  "deps t = f_params (fn t)"

definition has_deps :: "('v, 'x, 'g, 'w) Test \<Rightarrow> bool" where
  "has_deps t = (length (deps t) > 0)"

text \<open>
  Lines 204 to 213 of \<open>_resolve_single_fixture\<close>: the cached \<open>Fixture\<close> when the key is in
  the cache and the scope of the requested fixture lets it be reused, \<open>None\<close> when
  control falls through to the cache-miss code.
\<close>

definition cache_hit ::
  "('v, 'x, 'g, 'w) Test \<Rightarrow> ('v, 'x, 'g, 'w) Fixture \<Rightarrow> ('v, 'x, 'g, 'w) FixtureCache
     \<Rightarrow> ('v, 'x, 'g, 'w) Fixture option" where
  "cache_hit t fixture c =
     (case c (key fixture) of
        None \<Rightarrow> None
      | Some cached_fixture \<Rightarrow>
          (case scope fixture of
             Global \<Rightarrow> Some cached_fixture
           | Module \<Rightarrow>
               if last_resolved_module_name cached_fixture = Some (module_name t)
               then Some cached_fixture else None
           | Test \<Rightarrow>
               if last_resolved_test_id cached_fixture = Some (test_id t)
               then Some cached_fixture else None))"

definition fixture_error_message :: "('v, 'x, 'g, 'w) Fixture \<Rightarrow> string" where
  "fixture_error_message fixture =
     ''Unable to resolve fixture '' @ [CHR 0x27] @ fixture_name fixture @ [CHR 0x27]"

text \<open>
  The two \<open>try\<close> blocks of \<open>_resolve_single_fixture\<close> (lines 222 to 229 and 240 to 251),
  which differ only in the keyword arguments: call the factory, once resumed if it is a
  generator, and store what it gives in the \<open>Fixture\<close>; an \<open>Exception\<close> becomes a
  \<open>FixtureError\<close> chained to it. The test \<open>if is_generator\<close> is the case distinction
  on the body; the call is entered in \<open>calls\<close> as it is made.
\<close>

definition call_factory ::
  "('v, 'x, 'g, 'w) Fixture \<Rightarrow> 'v kwargs \<Rightarrow> ('v, 'x, 'g, 'w) run_state
     \<Rightarrow> ('x error + ('v, 'x, 'g, 'w) Fixture) \<times> ('v, 'x, 'g, 'w) run_state" where
  "call_factory fixture kw s =
     (let s1 = s\<lparr>calls := calls s @ [(fixture, kw)]\<rparr>
      in case fn_body (factory fixture) of
           GeneratorFunction b \<Rightarrow>
             (case b kw (world s) of
                (Inr (v, g), w') \<Rightarrow>
                  (Inr (fixture\<lparr>gen := Some g, resolved_val := Some v\<rparr>), s1\<lparr>world := w'\<rparr>)
              | (Inl (Exc e), w') \<Rightarrow>
                  (Inl (FixtureError (fixture_error_message fixture) e), s1\<lparr>world := w'\<rparr>)
              | (Inl (BaseExc e), w') \<Rightarrow> (Inl (Uncaught e), s1\<lparr>world := w'\<rparr>))
         | Function b \<Rightarrow>
             (case b kw (world s) of
                (Inr v, w') \<Rightarrow> (Inr (fixture\<lparr>resolved_val := Some v\<rparr>), s1\<lparr>world := w'\<rparr>)
              | (Inl (Exc e), w') \<Rightarrow>
                  (Inl (FixtureError (fixture_error_message fixture) e), s1\<lparr>world := w'\<rparr>)
              | (Inl (BaseExc e), w') \<Rightarrow> (Inl (Uncaught e), s1\<lparr>world := w'\<rparr>)))"

text \<open>\<open>cache.cache_fixture(fixture); return fixture\<close> after a call that did not raise.\<close>

definition store_result ::
  "('x error + ('v, 'x, 'g, 'w) Fixture) \<times> ('v, 'x, 'g, 'w) run_state
     \<Rightarrow> ('x error + ('v, 'x, 'g, 'w) Fixture) \<times> ('v, 'x, 'g, 'w) run_state" where
  "store_result r =
     (case r of
        (Inl e, s') \<Rightarrow> (Inl e, s')
      | (Inr fixture, s') \<Rightarrow> (Inr fixture, s'\<lparr>cache := cache_fixture (cache s') fixture\<rparr>))"

definition resolve_fixture_values ::
  "(string \<times> ('v, 'x, 'g, 'w) Fixture) list \<Rightarrow> 'v kwargs" where
  "resolve_fixture_values fixture_dict = map (\<lambda>(k, f). (k, resolved_val f)) fixture_dict"

text \<open>
  \<open>_resolve_single_fixture\<close>, and the loop over \<open>children_defaults.arguments.items()\<close>
  inside it (\<open>resolve_children\<close>, with the dict \<open>children_resolved\<close> built so far).
\<close>

function (sequential)
  resolve_single_fixture ::
    "('v, 'x, 'g, 'w) Test \<Rightarrow> ('v, 'x, 'g, 'w) fixture_fn \<Rightarrow> ('v, 'x, 'g, 'w) run_state
       \<Rightarrow> ('x error + ('v, 'x, 'g, 'w) Fixture) \<times> ('v, 'x, 'g, 'w) run_state"
and
  resolve_children ::
    "('v, 'x, 'g, 'w) Test \<Rightarrow> (string \<times> ('v, 'x, 'g, 'w) fixture_fn) list
       \<Rightarrow> (string \<times> ('v, 'x, 'g, 'w) Fixture) list \<Rightarrow> ('v, 'x, 'g, 'w) run_state
       \<Rightarrow> ('x error + (string \<times> ('v, 'x, 'g, 'w) Fixture) list) \<times> ('v, 'x, 'g, 'w) run_state"
where
  "resolve_single_fixture t fixture_fn s =
     (let fixture = Fixture_init fixture_fn
      in case cache_hit t fixture (cache s) of
           Some cached_fixture \<Rightarrow> (Inr cached_fixture, s)
         | None \<Rightarrow>
             (let fixture = fixture\<lparr>last_resolved_test_id := Some (test_id t),
                                    last_resolved_module_name := Some (module_name t)\<rparr>;
                  has_deps = (length (fixture_deps fixture) > 0)
              in if \<not> has_deps then store_result (call_factory fixture [] s)
                 else
                   (case resolve_children t (apply_defaults (fn_params fixture_fn)) [] s of
                      (Inl e, s') \<Rightarrow> (Inl e, s')
                    | (Inr children_resolved, s') \<Rightarrow>
                        store_result
                          (call_factory fixture (resolve_fixture_values children_resolved) s'))))"
| "resolve_children t [] children_resolved s = (Inr children_resolved, s)"
| "resolve_children t ((n, child_fixture) # rest) children_resolved s =
     (case resolve_single_fixture t child_fixture s of
        (Inl e, s') \<Rightarrow> (Inl e, s')
      | (Inr child_resolved, s') \<Rightarrow>
          resolve_children t rest (AList.update n child_resolved children_resolved) s')"
  by pat_completeness auto
termination
proof (relation "measure (\<lambda>x. case x of
          Inl (t, f, s) \<Rightarrow> 2 * size f
        | Inr (t, cs, acc, s) \<Rightarrow> 2 * size_list (\<lambda>p. size (snd p)) cs + 1)",
      goal_cases)
  case 1
  show ?case by simp
next
  case (2 t fixture_fn s)
  have "size_list (\<lambda>p. size (snd p)) (apply_defaults ps)
          \<le> size_list (size_prod (\<lambda>_. 0) (size_option size)) ps"
    for ps :: "(string \<times> ('v, 'x, 'g, 'w) fixture_fn option) list"
    by (induction ps rule: apply_defaults.induct) auto
  from this [of "fn_params fixture_fn"]
  have "size_list (\<lambda>p. size (snd p)) (apply_defaults (fn_params fixture_fn)) < size fixture_fn"
    by (cases fixture_fn) simp
  then show ?case by simp
next
  case 3
  show ?case by simp
next
  case 4
  show ?case by simp
qed

text \<open>
  The value \<open>resolve_args\<close> puts in its dict for one argument: the \<open>Fixture\<close> object that
  \<open>_resolve_single_fixture\<close> returned, or the argument itself.
\<close>

datatype ('v, 'x, 'g, 'w) resolved =
  Resolved_Fixture "('v, 'x, 'g, 'w) Fixture"
| Unchanged "('v, 'x, 'g, 'w) pyval"

text \<open>
  Lines 159 and 160 of \<open>resolve_args\<close>: an \<open>Each\<close> gives way to its item for the
  current iteration.
\<close>

definition substitute_each ::
  "int \<Rightarrow> ('v, 'x, 'g, 'w) pyval \<Rightarrow> 'x error + ('v, 'x, 'g, 'w) pyval" where
  "substitute_each iteration arg =
     (case arg of Each args \<Rightarrow> Each_getitem args iteration | _ \<Rightarrow> Inr arg)"

text \<open>The body of the loop of \<open>resolve_args\<close>, lines 159 to 164.\<close>

definition resolve_arg ::
  "('v, 'x, 'g, 'w) Test \<Rightarrow> int \<Rightarrow> ('v, 'x, 'g, 'w) pyval \<Rightarrow> ('v, 'x, 'g, 'w) run_state
     \<Rightarrow> ('x error + ('v, 'x, 'g, 'w) resolved) \<times> ('v, 'x, 'g, 'w) run_state" where
  "resolve_arg t iteration arg s =
     (case substitute_each iteration arg of
        Inl e \<Rightarrow> (Inl e, s)
      | Inr arg' \<Rightarrow>
          (case arg' of
             FixtureFactory fixture_fn \<Rightarrow>
               (case resolve_single_fixture t fixture_fn s of
                  (Inl e, s') \<Rightarrow> (Inl e, s')
                | (Inr fixture, s') \<Rightarrow> (Inr (Resolved_Fixture fixture), s'))
           | _ \<Rightarrow> (Inr (Unchanged arg'), s)))"

fun resolve_loop ::
  "('v, 'x, 'g, 'w) Test \<Rightarrow> int \<Rightarrow> (string \<times> ('v, 'x, 'g, 'w) pyval) list
     \<Rightarrow> (string \<times> ('v, 'x, 'g, 'w) resolved) list \<Rightarrow> ('v, 'x, 'g, 'w) run_state
     \<Rightarrow> ('x error + (string \<times> ('v, 'x, 'g, 'w) resolved) list) \<times> ('v, 'x, 'g, 'w) run_state"
where
  "resolve_loop t iteration [] resolved_args s = (Inr resolved_args, s)"
| "resolve_loop t iteration ((n, arg) # rest) resolved_args s =
     (case resolve_arg t iteration arg s of
        (Inl e, s') \<Rightarrow> (Inl e, s')
      | (Inr resolved, s') \<Rightarrow>
          resolve_loop t iteration rest (AList.update n resolved resolved_args) s')"

definition resolve_args ::
  "('v, 'x, 'g, 'w) Test \<Rightarrow> int \<Rightarrow> ('v, 'x, 'g, 'w) run_state
     \<Rightarrow> ('x error + (string \<times> ('v, 'x, 'g, 'w) resolved) list) \<times> ('v, 'x, 'g, 'w) run_state"
where
  "resolve_args t iteration s =
     (if \<not> has_deps t then (Inr [], s)
      else resolve_loop t iteration (get_default_args t) [] s)"

section \<open>The \<open>test\<close> decorator\<close>

text \<open>
  \<open>functools.wraps(func)\<close> applied to a wrapper: the wrapper takes the name, the module and
  the attribute dict of \<open>func\<close>, shows its signature, and keeps \<open>func\<close> as \<open>__wrapped__\<close>.
\<close>

definition wraps :: "('v, 'x, 'g, 'w) py_func \<Rightarrow> ('v, 'x, 'g, 'w) py_func" where
  "wraps func = PyFunc (f_name func) (f_module func) (f_ward_meta func) (f_params func) (Some func)"

definition set_ward_meta ::
  "('v, 'x, 'g, 'w) py_func \<Rightarrow> WardMeta \<Rightarrow> ('v, 'x, 'g, 'w) py_func" where
  "set_ward_meta func m = PyFunc (f_name func) (f_module func) (Some m) (f_params func) (f_wrapped func)"

text \<open>
  \<open>anonymous_tests\<close> is a \<open>defaultdict(list)\<close>: a list of functions for every module name,
  empty until something is appended. \<open>decorator_test\<close> is the decorator that
  \<open>test(description)\<close> returns; it gives back the wrapper and the registry. The function
  object \<open>func\<close> after the call is the \<open>__wrapped__\<close> of the wrapper.
\<close>

type_synonym ('v, 'x, 'g, 'w) registry = "string \<Rightarrow> ('v, 'x, 'g, 'w) py_func list"

definition decorator_test ::
  "string \<Rightarrow> ('v, 'x, 'g, 'w) py_func \<Rightarrow> ('v, 'x, 'g, 'w) registry
     \<Rightarrow> ('v, 'x, 'g, 'w) py_func \<times> ('v, 'x, 'g, 'w) registry" where
  "decorator_test desc func anonymous_tests =
     (if f_name func = ''_'' then
        (let mod_name = f_module func;
             func' = (case f_ward_meta func of
                        Some m \<Rightarrow> set_ward_meta func (m\<lparr>meta_description := Some desc\<rparr>)
                      | None \<Rightarrow> set_ward_meta func (WardMeta_init None (Some desc)))
         in (wraps func', anonymous_tests(mod_name := anonymous_tests mod_name @ [func'])))
      else (wraps func, anonymous_tests))"

definition test ::
  "string \<Rightarrow> ('v, 'x, 'g, 'w) py_func \<Rightarrow> ('v, 'x, 'g, 'w) registry
     \<Rightarrow> ('v, 'x, 'g, 'w) py_func \<times> ('v, 'x, 'g, 'w) registry" where
  "test desc = decorator_test desc"

section \<open>Notions used to state the properties\<close>

text \<open>
  The scope rule as the table of the spec states it: a cached fixture is reused always under
  \<open>Global\<close>, when the requesting test's module name equals the last recorded module name
  under \<open>Module\<close>, and when the requesting test's id equals the last recorded test id under
  \<open>Test\<close>. It is compared below with \<open>cache_hit\<close>, which is the code.
\<close>

definition scope_rule_validates ::
  "('v, 'x, 'g, 'w) Test \<Rightarrow> ('v, 'x, 'g, 'w) fixture_fn \<Rightarrow> ('v, 'x, 'g, 'w) Fixture \<Rightarrow> bool" where
  "scope_rule_validates t fixture_fn cached_fixture =
     (case fn_scope fixture_fn of
        Global \<Rightarrow> True
      | Module \<Rightarrow> last_resolved_module_name cached_fixture = Some (module_name t)
      | Test \<Rightarrow> last_resolved_test_id cached_fixture = Some (test_id t))"

text \<open>
  The object \<open>fixture\<close> of \<open>_resolve_single_fixture\<close> after lines 202, 216 and 217: built
  from the function and stamped with the id and the module name of the requesting test.
\<close>

definition fresh_fixture ::
  "('v, 'x, 'g, 'w) Test \<Rightarrow> ('v, 'x, 'g, 'w) fixture_fn \<Rightarrow> ('v, 'x, 'g, 'w) Fixture" where
  "fresh_fixture t fixture_fn =
     (Fixture_init fixture_fn)\<lparr>last_resolved_test_id := Some (test_id t),
                                last_resolved_module_name := Some (module_name t)\<rparr>"

text \<open>
  The factory, called with \<open>kw\<close> in the world \<open>w\<close>, raises the \<open>Exception\<close> \<open>e\<close> and
  leaves the world \<open>w'\<close>.
\<close>

definition factory_raises ::
  "('v, 'x, 'g, 'w) fixture_fn \<Rightarrow> 'v kwargs \<Rightarrow> 'w \<Rightarrow> 'x \<Rightarrow> 'w \<Rightarrow> bool" where
  "factory_raises fixture_fn kw w e w' =
     (case fn_body fixture_fn of
        Function b \<Rightarrow> b kw w = (Inl (Exc e), w')
      | GeneratorFunction b \<Rightarrow> b kw w = (Inl (Exc e), w'))"

text \<open>
  The factory, called with \<open>kw\<close> in the world \<open>w\<close>, returns the value \<open>v\<close> and leaves
  the world \<open>w'\<close>. For a generator function \<open>v\<close> is the first value it yields and \<open>g\<close> the
  suspended generator; for a plain function there is no generator and \<open>g\<close> is \<open>None\<close>.
\<close>

definition factory_returns ::
  "('v, 'x, 'g, 'w) fixture_fn \<Rightarrow> 'v kwargs \<Rightarrow> 'w \<Rightarrow> 'v \<Rightarrow> 'g option \<Rightarrow> 'w \<Rightarrow> bool" where
  "factory_returns fixture_fn kw w v g w' =
     (case fn_body fixture_fn of
        Function b \<Rightarrow> b kw w = (Inr v, w') \<and> g = None
      | GeneratorFunction b \<Rightarrow>
          (case g of None \<Rightarrow> False | Some h \<Rightarrow> b kw w = (Inr (v, h), w')))"

text \<open>
  \<open>raises_in t f s g kw s1 e w'\<close>: while \<open>f\<close> is resolved for the test \<open>t\<close> from the state
  \<open>s\<close>, the factory of \<open>g\<close> is called with \<open>kw\<close> in the state \<open>s1\<close> and raises the
  \<open>Exception\<close> \<open>e\<close>, leaving the world \<open>w'\<close>. The fixture \<open>g\<close> is \<open>f\<close> itself, its
  dependencies having resolved, or it is met, at any depth, below a dependency of \<open>f\<close> that
  is reached after the dependencies before it have resolved. On the way every fixture is a
  cache miss.
\<close>

inductive raises_in ::
  "('v, 'x, 'g, 'w) Test \<Rightarrow> ('v, 'x, 'g, 'w) fixture_fn \<Rightarrow> ('v, 'x, 'g, 'w) run_state
     \<Rightarrow> ('v, 'x, 'g, 'w) fixture_fn \<Rightarrow> 'v kwargs \<Rightarrow> ('v, 'x, 'g, 'w) run_state \<Rightarrow> 'x \<Rightarrow> 'w
     \<Rightarrow> bool" where
  own_factory:
    "cache_hit t (Fixture_init f) (cache s) = None \<Longrightarrow>
     resolve_children t (apply_defaults (fn_params f)) [] s = (Inr children_resolved, s1) \<Longrightarrow>
     factory_raises f (resolve_fixture_values children_resolved) (world s1) e w' \<Longrightarrow>
     raises_in t f s f (resolve_fixture_values children_resolved) s1 e w'"
| dependency:
    "cache_hit t (Fixture_init f) (cache s) = None \<Longrightarrow>
     apply_defaults (fn_params f) = before @ (n, child) # rest \<Longrightarrow>
     resolve_children t before [] s = (Inr children_resolved, s0) \<Longrightarrow>
     raises_in t child s0 g kw s1 e w' \<Longrightarrow>
     raises_in t f s g kw s1 e w'"

code_pred raises_in .

section \<open>Example tests and fixtures\<close>

text \<open>
  Concrete inputs: values are integers, exceptions are strings, the world is a counter of
  the factory calls made.
\<close>

definition example_test ::
  "string \<Rightarrow> string \<Rightarrow> string \<Rightarrow> (string \<times> (int, string, unit, nat) pyval option) list
     \<Rightarrow> (int, string, unit, nat) Test" where
  "example_test nm md i ps =
     \<lparr>fn = PyFunc nm md None ps None, module_name = md, test_id = i,
      marker = None, description = None\<rparr>"

definition empty_run :: "(int, string, unit, nat) run_state" where
  "empty_run = \<lparr>cache = Map.empty, world = 0, calls = []\<rparr>"

definition example_uuid :: "nat \<Rightarrow> string" where
  "example_uuid k = ''uuid-'' @ replicate k (CHR ''x'')"

definition seven :: "(int, string, unit, nat) fixture_fn" where
  "seven = FixtureFn ''fixtures.seven'' ''seven'' Test [] (Function (\<lambda>kw w. (Inr 7, Suc w)))"

text \<open>A fixture whose factory returns on its first call and raises from then on.\<close>

definition flaky :: "(int, string, unit, nat) fixture_fn" where
  "flaky = FixtureFn ''fixtures.flaky'' ''flaky'' Test []
     (Function (\<lambda>kw w. if w = 0 then (Inr 1, Suc w) else (Inl (Exc ''boom''), Suc w)))"

definition broken :: "(int, string, unit, nat) fixture_fn" where
  "broken = FixtureFn ''fixtures.broken'' ''broken'' Test []
     (Function (\<lambda>kw w. (Inl (Exc ''boom''), Suc w)))"

definition fixture_c :: "(int, string, unit, nat) fixture_fn" where
  "fixture_c = FixtureFn ''fixtures.c'' ''c'' Test [] (Function (\<lambda>kw w. (Inr 1, Suc w)))"

definition fixture_b :: "(int, string, unit, nat) fixture_fn" where
  "fixture_b = FixtureFn ''fixtures.b'' ''b'' Module [(''c'', Some fixture_c)]
     (Function (\<lambda>kw w. (Inr (case map_of kw ''c'' of Some (Some v) \<Rightarrow> v + 10 | _ \<Rightarrow> 0), Suc w)))"

definition fixture_a :: "(int, string, unit, nat) fixture_fn" where
  "fixture_a = FixtureFn ''fixtures.a'' ''a'' Global [(''b'', Some fixture_b)]
     (Function (\<lambda>kw w. (Inr (case map_of kw ''b'' of Some (Some v) \<Rightarrow> v + 100 | _ \<Rightarrow> 0), Suc w)))"

definition test_each_3_3 :: "(int, string, unit, nat) Test" where
  "test_each_3_3 = example_test ''test_sum'' ''mod_a'' ''id-orig''
     [(''a'', Some (Each [Literal 1, Literal 2, Literal 3])),
      (''b'', Some (Each [Literal 4, Literal 5, Literal 6])),
      (''c'', Some (Literal 0))]"

definition test_each_2_3 :: "(int, string, unit, nat) Test" where
  "test_each_2_3 = example_test ''test_bad'' ''mod_a'' ''id-orig''
     [(''a'', Some (Each [Literal 1, Literal 2])),
      (''b'', Some (Each [Literal 4, Literal 5, Literal 6]))]"

definition test_plain :: "(int, string, unit, nat) Test" where
  "test_plain = example_test ''test_plain'' ''mod_a'' ''id-plain''
     [(''x'', Some (FixtureFactory seven)), (''y'', Some (Literal 5))]"

definition test_a :: "(int, string, unit, nat) fixture_fn \<Rightarrow> (int, string, unit, nat) Test" where
  "test_a f = example_test ''test_a'' ''mod_a'' ''id-a'' [(''x'', Some (FixtureFactory f))]"

definition test_b :: "(int, string, unit, nat) fixture_fn \<Rightarrow> (int, string, unit, nat) Test" where
  "test_b f = example_test ''test_b'' ''mod_b'' ''id-b'' [(''x'', Some (FixtureFactory f))]"

definition test_broken_then_each :: "(int, string, unit, nat) Test" where
  "test_broken_then_each = example_test ''test_each'' ''mod_a'' ''id-a''
     [(''f'', Some (FixtureFactory broken)), (''x'', Some (Each [Literal 1]))]"

definition test_literal_then_each :: "(int, string, unit, nat) Test" where
  "test_literal_then_each = example_test ''test_each'' ''mod_a'' ''id-a''
     [(''y'', Some (Literal 5)), (''x'', Some (Each [Literal 1, Literal 2]))]"

definition cached_seven :: "(int, string, unit, nat) Fixture" where
  "cached_seven = \<lparr>factory = seven, gen = None, resolved_val = Some 7,
     last_resolved_test_id = Some ''id-a'', last_resolved_module_name = Some ''mod_a''\<rparr>"

definition warm_run :: "(int, string, unit, nat) run_state" where
  "warm_run = \<lparr>cache = [''fixtures.seven'' \<mapsto> cached_seven], world = 1, calls = []\<rparr>"

definition func_anonymous :: "(int, string, unit, nat) py_func" where
  "func_anonymous = PyFunc ''_'' ''tests.test_mod'' None [] None"

definition func_named :: "(int, string, unit, nat) py_func" where
  "func_named = PyFunc ''test_named'' ''tests.test_mod'' None [] None"

text \<open>A chain whose leaf always raises.\<close>

definition broken_chain_b :: "(int, string, unit, nat) fixture_fn" where
  "broken_chain_b = FixtureFn ''fixtures.broken_chain_b'' ''broken_chain_b'' Module
     [(''c'', Some broken)] (Function (\<lambda>kw w. (Inr 2, Suc w)))"

definition broken_chain_a :: "(int, string, unit, nat) fixture_fn" where
  "broken_chain_a = FixtureFn ''fixtures.broken_chain_a'' ''broken_chain_a'' Global
     [(''b'', Some broken_chain_b)] (Function (\<lambda>kw w. (Inr 3, Suc w)))"

text \<open>A cache that holds \<open>fixture_a\<close>, of scope \<open>Global\<close>, and nothing else.\<close>

definition cached_a :: "(int, string, unit, nat) Fixture" where
  "cached_a = \<lparr>factory = fixture_a, gen = None, resolved_val = Some 111,
     last_resolved_test_id = Some ''id-a'', last_resolved_module_name = Some ''mod_a''\<rparr>"

definition warm_a_run :: "(int, string, unit, nat) run_state" where
  "warm_a_run = \<lparr>cache = [''fixtures.a'' \<mapsto> cached_a], world = 3, calls = []\<rparr>"

text \<open>The state that resolving the arguments of \<open>test_a flaky\<close> leaves, starting empty.\<close>

definition after_test_a_flaky :: "(int, string, unit, nat) run_state" where
  "after_test_a_flaky = snd (resolve_args (test_a flaky) 0 empty_run)"

text \<open>A source of identifiers that hands out the same value every time.\<close>

definition stuck_uuid :: "nat \<Rightarrow> string" where
  "stuck_uuid k = ''id-orig''"

section \<open>Auxiliary facts\<close>

declare resolve_single_fixture.simps [simp del]

lemma apply_defaults_set: "(n, v) \<in> set (apply_defaults ps) \<longleftrightarrow> (n, Some v) \<in> set ps"
  by (induction ps rule: apply_defaults.induct) auto

lemma list_ex_isinstance_Each:
  "list_ex isinstance_Each (map snd xs) \<longleftrightarrow> (\<exists>n args. (n, Each args) \<in> set xs)"
proof (induction xs)
  case Nil
  then show ?case by simp
next
  case (Cons p xs)
  obtain n v where p: "p = (n, v)" by (cases p)
  show ?case using Cons p by (cases v) auto
qed

lemma is_parameterised_iff:
  "is_parameterised t \<longleftrightarrow> (\<exists>n args. (n, Some (Each args)) \<in> set (f_params (fn t)))"
  by (simp add: is_parameterised_def get_default_args_def list_ex_isinstance_Each apply_defaults_set)

lemma set_each_lengths:
  "set (each_lengths xs) = {length args | n args. (n, Each args) \<in> set xs}"
  by (induction xs rule: each_lengths.induct) auto



lemma find_number_differ:
  assumes e1: "(m1, Some (Each a1)) \<in> set (f_params (fn t))"
      and e2: "(m2, Some (Each a2)) \<in> set (f_params (fn t))"
      and ne: "length a1 \<noteq> length a2"
  shows "find_number_of_instances t = Inl (ParameterisationError (parameterisation_message t))"
proof -
  let ?ls = "each_lengths (get_default_args t)"
  have "{length a1, length a2} \<subseteq> set ?ls"
    using e1 e2 by (auto simp: set_each_lengths get_default_args_def apply_defaults_set)
  then have "card {length a1, length a2} \<le> card (set ?ls)"
    by (intro card_mono) auto
  then have "2 \<le> length (remdups ?ls)"
    using ne by (simp add: length_remdups_card_conv)
  then have nv: "(length (remdups ?ls) \<in> {0, 1}) = False" by auto
  show ?thesis
    unfolding find_number_of_instances_def Let_def nv by simp
qed

lemma cache_hit_rule:
  "cache_hit t (Fixture_init f) c =
     (case c (fn_key f) of
        None \<Rightarrow> None
      | Some cached \<Rightarrow> if scope_rule_validates t f cached then Some cached else None)"
  by (simp add: cache_hit_def scope_rule_validates_def key_def scope_def Fixture_init_def
           split: option.splits Scope.splits)

lemma resolve_single_fixture_hit:
  "cache_hit t (Fixture_init f) (cache s) = Some c \<Longrightarrow> resolve_single_fixture t f s = (Inr c, s)"
  by (simp add: resolve_single_fixture.simps)

lemma resolve_single_fixture_miss:
  "cache_hit t (Fixture_init f) (cache s) = None \<Longrightarrow>
   resolve_single_fixture t f s =
     (if fn_params f = [] then store_result (call_factory (fresh_fixture t f) [] s)
      else (case resolve_children t (apply_defaults (fn_params f)) [] s of
              (Inl e, s') \<Rightarrow> (Inl e, s')
            | (Inr children_resolved, s') \<Rightarrow>
                store_result (call_factory (fresh_fixture t f)
                                (resolve_fixture_values children_resolved) s')))"
  by (simp add: resolve_single_fixture.simps fresh_fixture_def fixture_deps_def Fixture_init_def
           split: prod.splits sum.splits)

lemma call_factory_state:
  "call_factory fx kw s = (r, s') \<Longrightarrow> cache s' = cache s \<and> calls s' = calls s @ [(fx, kw)]"
  by (auto simp: call_factory_def Let_def split: fn_body.splits prod.splits sum.splits py_raise.splits)

lemma call_factory_Inr:
  "call_factory fx kw s = (Inr fx', s') \<Longrightarrow>
     factory fx' = factory fx \<and> last_resolved_test_id fx' = last_resolved_test_id fx
     \<and> last_resolved_module_name fx' = last_resolved_module_name fx \<and> resolved_val fx' \<noteq> None"
  by (auto simp: call_factory_def Let_def split: fn_body.splits prod.splits sum.splits py_raise.splits)

lemma call_factory_raises:
  "factory_raises (factory fx) kw (world s) e w' \<Longrightarrow>
   call_factory fx kw s =
     (Inl (FixtureError (fixture_error_message fx) e),
      s\<lparr>calls := calls s @ [(fx, kw)], world := w'\<rparr>)"
  by (auto simp: call_factory_def factory_raises_def Let_def split: fn_body.splits)

lemma store_result_Inl: "store_result (Inl e, s) = (Inl e, s)"
  by (simp add: store_result_def)

lemma store_result_Inr:
  "store_result (Inr fx, s) = (Inr fx, s\<lparr>cache := (cache s)(key fx \<mapsto> fx)\<rparr>)"
  by (simp add: store_result_def cache_fixture_def)

lemma store_call_cases:
  assumes "store_result (call_factory fx kw s) = (r, s')"
  shows "calls s' = calls s @ [(fx, kw)]
         \<and> (case r of
               Inl e \<Rightarrow> cache s' = cache s
             | Inr fx' \<Rightarrow> call_factory fx kw s = (Inr fx', s'\<lparr>cache := cache s\<rparr>)
                           \<and> cache s' = (cache s)(key fx \<mapsto> fx') \<and> key fx' = key fx)"
proof -
  obtain r0 s0 where c: "call_factory fx kw s = (r0, s0)" by (cases "call_factory fx kw s")
  note st = call_factory_state [OF c]
  show ?thesis
  proof (cases r0)
    case (Inl e)
    with assms c st show ?thesis by (auto simp: store_result_Inl)
  next
    case (Inr fx')
    with c have "factory fx' = factory fx" using call_factory_Inr by blast
    then have k: "key fx' = key fx" by (simp add: key_def)
    from assms c Inr have "r = Inr fx'" "s' = s0\<lparr>cache := (cache s0)(key fx' \<mapsto> fx')\<rparr>"
      by (auto simp: store_result_Inr)
    then show ?thesis using st k c Inr by simp
  qed
qed

lemma resolve_calls:
  "resolve_single_fixture t f s = (r, s') \<Longrightarrow>
     \<exists>new. calls s' = calls s @ new
        \<and> (\<forall>c \<in> set new. last_resolved_test_id (fst c) = Some (test_id t)
                \<and> last_resolved_module_name (fst c) = Some (module_name t)
                \<and> resolved_val (fst c) = None)"
  "resolve_children t cs acc s = (r2, s2) \<Longrightarrow>
     \<exists>new. calls s2 = calls s @ new
        \<and> (\<forall>c \<in> set new. last_resolved_test_id (fst c) = Some (test_id t)
                \<and> last_resolved_module_name (fst c) = Some (module_name t)
                \<and> resolved_val (fst c) = None)"
proof (induction t f s and t cs acc s arbitrary: r s' and r2 s2
       rule: resolve_single_fixture_resolve_children.induct)
  case (1 t f s)
  let ?ok = "\<lambda>c. last_resolved_test_id (fst c) = Some (test_id t)
                \<and> last_resolved_module_name (fst c) = Some (module_name t)
                \<and> resolved_val (fst c) = None"
  have okf: "?ok (fresh_fixture t f, kw)" for kw
    by (simp add: fresh_fixture_def Fixture_init_def)
  show ?case
  proof (cases "cache_hit t (Fixture_init f) (cache s)")
    case (Some c)
    with "1.prems" have "s' = s" by (simp add: resolve_single_fixture_hit)
    then show ?thesis by simp
  next
    case None
    note miss = resolve_single_fixture_miss [OF None]
    show ?thesis
    proof (cases "fn_params f = []")
      case True
      with miss "1.prems" have "store_result (call_factory (fresh_fixture t f) [] s) = (r, s')"
        by simp
      from store_call_cases [OF this] have "calls s' = calls s @ [(fresh_fixture t f, [])]" by simp
      then show ?thesis using okf by auto
    next
      case False
      obtain rc s1 where rc: "resolve_children t (apply_defaults (fn_params f)) [] s = (rc, s1)"
        by (cases "resolve_children t (apply_defaults (fn_params f)) [] s")
      have "\<exists>new. calls s1 = calls s @ new \<and> (\<forall>c \<in> set new. ?ok c)"
        using "1.IH" [OF refl None refl refl _ rc] False
        by (simp add: fixture_deps_def Fixture_init_def)
      then obtain new1 where n1: "calls s1 = calls s @ new1" "\<forall>c \<in> set new1. ?ok c" by blast
      show ?thesis
      proof (cases rc)
        case (Inl e)
        with miss False rc "1.prems" have "s' = s1" by simp
        then show ?thesis using n1 by blast
      next
        case (Inr cr)
        with miss False rc "1.prems"
        have "store_result (call_factory (fresh_fixture t f) (resolve_fixture_values cr) s1) = (r, s')"
          by simp
        from store_call_cases [OF this]
        have "calls s' = calls s @ (new1 @ [(fresh_fixture t f, resolve_fixture_values cr)])"
          using n1 by simp
        moreover have "\<forall>c \<in> set (new1 @ [(fresh_fixture t f, resolve_fixture_values cr)]). ?ok c"
          using n1 okf by auto
        ultimately show ?thesis by blast
      qed
    qed
  qed
next
  case (2 t acc s)
  then show ?case by simp
next
  case (3 t n child rest acc s)
  let ?ok = "\<lambda>c. last_resolved_test_id (fst c) = Some (test_id t)
                \<and> last_resolved_module_name (fst c) = Some (module_name t)
                \<and> resolved_val (fst c) = None"
  obtain r1 s1 where r1: "resolve_single_fixture t child s = (r1, s1)"
    by (cases "resolve_single_fixture t child s")
  from "3.IH"(1) [OF r1] obtain new1 where n1: "calls s1 = calls s @ new1" "\<forall>c \<in> set new1. ?ok c"
    by blast
  show ?case
  proof (cases r1)
    case (Inl e)
    with r1 "3.prems" have "s2 = s1" by simp
    then show ?thesis using n1 by blast
  next
    case (Inr b)
    with r1 "3.prems" have "resolve_children t rest (AList.update n b acc) s1 = (r2, s2)" by simp
    from "3.IH"(2) [OF r1 [symmetric] Inr this]
    obtain new2 where n2: "calls s2 = calls s1 @ new2" "\<forall>c \<in> set new2. ?ok c" by blast
    have "calls s2 = calls s @ (new1 @ new2)" using n1 n2 by simp
    moreover have "\<forall>c \<in> set (new1 @ new2). ?ok c" using n1 n2 by auto
    ultimately show ?thesis by blast
  qed
qed

lemma fresh_fixture_simps:
  "factory (fresh_fixture t f) = f"
  "key (fresh_fixture t f) = fn_key f"
  "last_resolved_test_id (fresh_fixture t f) = Some (test_id t)"
  "last_resolved_module_name (fresh_fixture t f) = Some (module_name t)"
  "resolved_val (fresh_fixture t f) = None"
  "fixture_error_message (fresh_fixture t f)
     = ''Unable to resolve fixture '' @ [CHR 0x27] @ fn_name f @ [CHR 0x27]"
  by (simp_all add: fresh_fixture_def Fixture_init_def key_def fixture_error_message_def
        fixture_name_def)

lemma resolve_miss_result:
  assumes miss: "cache_hit t (Fixture_init f) (cache s) = None"
      and r: "resolve_single_fixture t f s = (Inr fx, s')"
  shows "\<exists>kw s1 new. store_result (call_factory (fresh_fixture t f) kw s1) = (Inr fx, s')
           \<and> calls s1 = calls s @ new"
proof (cases "fn_params f = []")
  case True
  with r resolve_single_fixture_miss [OF miss]
  have "store_result (call_factory (fresh_fixture t f) [] s) = (Inr fx, s')" by simp
  then show ?thesis by (metis append_Nil2)
next
  case False
  obtain rc s1 where rc: "resolve_children t (apply_defaults (fn_params f)) [] s = (rc, s1)"
    by (cases "resolve_children t (apply_defaults (fn_params f)) [] s")
  from resolve_calls(2) [OF rc] obtain new where n: "calls s1 = calls s @ new" by blast
  from r resolve_single_fixture_miss [OF miss] False
  have "(case resolve_children t (apply_defaults (fn_params f)) [] s of
            (Inl e, s') \<Rightarrow> (Inl e, s')
          | (Inr children_resolved, s') \<Rightarrow>
              store_result (call_factory (fresh_fixture t f)
                              (resolve_fixture_values children_resolved) s')) = (Inr fx, s')"
    by simp
  then have "\<exists>kw. store_result (call_factory (fresh_fixture t f) kw s1) = (Inr fx, s')"
    unfolding rc by (cases rc) auto
  with n show ?thesis by blast
qed

lemma call_factory_FixtureError:
  "call_factory fx kw s1 = (Inl (FixtureError m e), s') \<Longrightarrow>
     m = fixture_error_message fx \<and> factory_raises (factory fx) kw (world s1) e (world s')
     \<and> calls s' = calls s1 @ [(fx, kw)]"
  by (auto simp: call_factory_def factory_raises_def Let_def
           split: fn_body.splits prod.splits sum.splits py_raise.splits)

lemma store_result_error: "store_result p = (Inl e, s') \<Longrightarrow> p = (Inl e, s')"
  by (auto simp: store_result_def split: prod.splits sum.splits)

lemma resolve_error_origin:
  "resolve_single_fixture t f s = (Inl (FixtureError m e), s') \<Longrightarrow>
     \<exists>fx kw w. calls s' \<noteq> [] \<and> last (calls s') = (fx, kw) \<and> m = fixture_error_message fx
        \<and> factory_raises (factory fx) kw w e (world s')"
  "resolve_children t cs acc s = (Inl (FixtureError m e), s2) \<Longrightarrow>
     \<exists>fx kw w. calls s2 \<noteq> [] \<and> last (calls s2) = (fx, kw) \<and> m = fixture_error_message fx
        \<and> factory_raises (factory fx) kw w e (world s2)"
proof (induction t f s and t cs acc s arbitrary: s' and s2
       rule: resolve_single_fixture_resolve_children.induct)
  case (1 t f s)
  have fin: "\<exists>fx kw w. calls s' \<noteq> [] \<and> last (calls s') = (fx, kw) \<and> m = fixture_error_message fx
        \<and> factory_raises (factory fx) kw w e (world s')"
    if "store_result (call_factory (fresh_fixture t f) kw0 s0) = (Inl (FixtureError m e), s')"
    for kw0 s0
    using call_factory_FixtureError [OF store_result_error [OF that]] by auto
  show ?case
  proof (cases "cache_hit t (Fixture_init f) (cache s)")
    case (Some c)
    with "1.prems" show ?thesis by (simp add: resolve_single_fixture_hit)
  next
    case None
    note miss = resolve_single_fixture_miss [OF None]
    show ?thesis
    proof (cases "fn_params f = []")
      case True
      with miss "1.prems" show ?thesis using fin by simp
    next
      case False
      obtain rc s1 where rc: "resolve_children t (apply_defaults (fn_params f)) [] s = (rc, s1)"
        by (cases "resolve_children t (apply_defaults (fn_params f)) [] s")
      show ?thesis
      proof (cases rc)
        case (Inl e')
        with miss False rc "1.prems" have "e' = FixtureError m e" "s' = s1" by simp_all
        with rc Inl have "resolve_children t (apply_defaults (fn_params f)) [] s
                            = (Inl (FixtureError m e), s')" by simp
        from "1.IH" [OF refl None refl refl _ this] False show ?thesis
          by (simp add: fixture_deps_def Fixture_init_def)
      next
        case (Inr cr)
        with miss False rc "1.prems" show ?thesis using fin by simp
      qed
    qed
  qed
next
  case (2 t acc s)
  then show ?case by simp
next
  case (3 t n child rest acc s)
  obtain r1 s1 where r1: "resolve_single_fixture t child s = (r1, s1)"
    by (cases "resolve_single_fixture t child s")
  show ?case
  proof (cases r1)
    case (Inl e')
    with r1 "3.prems" have "e' = FixtureError m e" "s2 = s1" by simp_all
    with r1 Inl have "resolve_single_fixture t child s = (Inl (FixtureError m e), s2)" by simp
    from "3.IH"(1) [OF this] show ?thesis .
  next
    case (Inr b)
    with r1 "3.prems"
    have "resolve_children t rest (AList.update n b acc) s1 = (Inl (FixtureError m e), s2)" by simp
    from "3.IH"(2) [OF r1 [symmetric] Inr this] show ?thesis .
  qed
qed

lemma resolve_arg_error_origin:
  "resolve_arg t it arg s = (Inl (FixtureError m e), s') \<Longrightarrow>
     \<exists>fx kw w. calls s' \<noteq> [] \<and> last (calls s') = (fx, kw) \<and> m = fixture_error_message fx
        \<and> factory_raises (factory fx) kw w e (world s')"
  by (auto simp: resolve_arg_def substitute_each_def Each_getitem_def Let_def
           split: sum.splits pyval.splits prod.splits if_splits
           dest!: resolve_error_origin(1))

lemma resolve_loop_error_origin:
  "resolve_loop t it args acc s = (Inl (FixtureError m e), s') \<Longrightarrow>
     \<exists>fx kw w. calls s' \<noteq> [] \<and> last (calls s') = (fx, kw) \<and> m = fixture_error_message fx
        \<and> factory_raises (factory fx) kw w e (world s')"
proof (induction args arbitrary: acc s)
  case Nil
  then show ?case by simp
next
  case (Cons p args)
  obtain n arg where p: "p = (n, arg)" by (cases p)
  obtain r1 s1 where r1: "resolve_arg t it arg s = (r1, s1)" by (cases "resolve_arg t it arg s")
  show ?case
  proof (cases r1)
    case (Inl e')
    with r1 p Cons.prems have "resolve_arg t it arg s = (Inl (FixtureError m e), s')" by simp
    then show ?thesis by (rule resolve_arg_error_origin)
  next
    case (Inr x)
    with r1 p Cons.prems
    have "resolve_loop t it args (AList.update n x acc) s1 = (Inl (FixtureError m e), s')" by simp
    then show ?thesis by (rule Cons.IH)
  qed
qed

lemma resolve_loop_append:
  "resolve_loop t it (pre @ rest) acc s =
     (case resolve_loop t it pre acc s of
        (Inl e, s1) \<Rightarrow> (Inl e, s1)
      | (Inr r1, s1) \<Rightarrow> resolve_loop t it rest r1 s1)"
  by (induction pre arbitrary: acc s) (auto split: prod.splits sum.splits)

lemma resolve_loop_keeps:
  "resolve_loop t it post acc s = (Inr r, s') \<Longrightarrow> n \<notin> fst ` set post \<Longrightarrow> map_of r n = map_of acc n"
proof (induction post arbitrary: acc s)
  case Nil
  then show ?case by simp
next
  case (Cons p post)
  obtain m arg where p: "p = (m, arg)" by (cases p)
  from Cons.prems p have ne: "m \<noteq> n" "n \<notin> fst ` set post" by auto
  from Cons.prems(1) p obtain x s1 where
    "resolve_arg t it arg s = (Inr x, s1)" "resolve_loop t it post (AList.update m x acc) s1 = (Inr r, s')"
    by (auto split: prod.splits sum.splits)
  from Cons.IH [OF this(2) ne(2)] ne(1) show ?case
    by (simp add: AList.update_conv')
qed

lemma has_deps_default_args: "get_default_args t \<noteq> [] \<Longrightarrow> has_deps t"
  by (auto simp: has_deps_def deps_def get_default_args_def)

lemma resolve_args_loop:
  "get_default_args t = pre @ p # post \<Longrightarrow>
   resolve_args t it s = resolve_loop t it (pre @ p # post) [] s"
  using has_deps_default_args [of t] by (simp add: resolve_args_def)

lemma resolve_arg_cases:
  "resolve_arg t it arg s = (Inr x, s2) \<Longrightarrow>
   \<exists>a. substitute_each it arg = Inr a \<and>
     (case a of
        FixtureFactory f \<Rightarrow> \<exists>fx. resolve_single_fixture t f s = (Inr fx, s2) \<and> x = Resolved_Fixture fx
      | _ \<Rightarrow> x = Unchanged a \<and> s2 = s)"
  by (auto simp: resolve_arg_def split: sum.splits pyval.splits prod.splits)

lemma resolve_single_fixture_miss_children:
  "cache_hit t (Fixture_init f) (cache s) = None \<Longrightarrow>
   resolve_single_fixture t f s =
     (case resolve_children t (apply_defaults (fn_params f)) [] s of
        (Inl e, s1) \<Rightarrow> (Inl e, s1)
      | (Inr children_resolved, s1) \<Rightarrow>
          store_result (call_factory (fresh_fixture t f)
                          (resolve_fixture_values children_resolved) s1))"
  by (cases "fn_params f = []")
     (simp_all add: resolve_single_fixture_miss resolve_fixture_values_def)

lemma call_factory_returns:
  "factory_returns f kw (world s) v g w' \<Longrightarrow>
   call_factory (fresh_fixture t f) kw s =
     (Inr ((fresh_fixture t f)\<lparr>gen := g, resolved_val := Some v\<rparr>),
      s\<lparr>calls := calls s @ [(fresh_fixture t f, kw)], world := w'\<rparr>)"
  by (auto simp: call_factory_def factory_returns_def Let_def fresh_fixture_def Fixture_init_def
           split: fn_body.splits option.splits)

lemma call_factory_Inr_returns:
  "call_factory (fresh_fixture t f) kw s1 = (Inr fx, s2) \<Longrightarrow>
     \<exists>v g. factory_returns f kw (world s1) v g (world s2)
        \<and> fx = (fresh_fixture t f)\<lparr>gen := g, resolved_val := Some v\<rparr>"
  by (auto simp: call_factory_def factory_returns_def Let_def fresh_fixture_def Fixture_init_def
           split: fn_body.splits prod.splits sum.splits py_raise.splits)

lemma resolve_miss_returns:
  assumes miss: "cache_hit t (Fixture_init f) (cache s) = None"
      and ch: "resolve_children t (apply_defaults (fn_params f)) [] s = (Inr cr, s1)"
      and ret: "factory_returns f (resolve_fixture_values cr) (world s1) v g w'"
  shows "resolve_single_fixture t f s =
           (Inr ((fresh_fixture t f)\<lparr>gen := g, resolved_val := Some v\<rparr>),
            s1\<lparr>calls := calls s1 @ [(fresh_fixture t f, resolve_fixture_values cr)],
                world := w',
                cache := (cache s1)(fn_key f \<mapsto>
                            (fresh_fixture t f)\<lparr>gen := g, resolved_val := Some v\<rparr>)\<rparr>)"
  using ch call_factory_returns [OF ret, of t]
  by (simp add: resolve_single_fixture_miss_children [OF miss] store_result_Inr key_def
        fresh_fixture_def Fixture_init_def)

lemma resolve_miss_error:
  assumes miss: "cache_hit t (Fixture_init f) (cache s) = None"
      and r: "resolve_single_fixture t f s = (Inl e, s')"
  shows "cache s' = cache (snd (resolve_children t (apply_defaults (fn_params f)) [] s))"
proof -
  obtain rc s1 where rc: "resolve_children t (apply_defaults (fn_params f)) [] s = (rc, s1)"
    by (cases "resolve_children t (apply_defaults (fn_params f)) [] s")
  show ?thesis
  proof (cases rc)
    case (Inl e1)
    with r rc resolve_single_fixture_miss_children [OF miss] show ?thesis by simp
  next
    case (Inr cr)
    with r rc resolve_single_fixture_miss_children [OF miss]
    have "store_result (call_factory (fresh_fixture t f) (resolve_fixture_values cr) s1) = (Inl e, s')"
      by simp
    from store_call_cases [OF this] rc show ?thesis by simp
  qed
qed

lemma resolve_children_append:
  "resolve_children t (before @ rest) acc s =
     (case resolve_children t before acc s of
        (Inl e, s1) \<Rightarrow> (Inl e, s1)
      | (Inr acc1, s1) \<Rightarrow> resolve_children t rest acc1 s1)"
  by (induction before arbitrary: acc s) (auto split: prod.splits sum.splits)

lemma raises_in_resolve:
  "raises_in t f s g kw s1 e w' \<Longrightarrow>
   resolve_single_fixture t f s =
     (Inl (FixtureError (''Unable to resolve fixture '' @ [CHR 0x27] @ fn_name g @ [CHR 0x27]) e),
      s1\<lparr>calls := calls s1 @ [(fresh_fixture t g, kw)], world := w'\<rparr>)"
proof (induction rule: raises_in.induct)
  case (own_factory t f s cr s1 e w')
  have "call_factory (fresh_fixture t f) (resolve_fixture_values cr) s1 =
          (Inl (FixtureError (''Unable to resolve fixture '' @ [CHR 0x27] @ fn_name f @ [CHR 0x27]) e),
           s1\<lparr>calls := calls s1 @ [(fresh_fixture t f, resolve_fixture_values cr)], world := w'\<rparr>)"
    using own_factory(3) call_factory_raises [of "fresh_fixture t f" "resolve_fixture_values cr" s1 e w']
    by (simp add: fresh_fixture_simps)
  with own_factory(2) show ?case
    by (simp add: resolve_single_fixture_miss_children [OF own_factory(1)] store_result_Inl)
next
  case (dependency t f s before n child rest cr s0 g kw s1 e w')
  from dependency(3) dependency.IH
  have "resolve_children t (before @ (n, child) # rest) [] s =
          (Inl (FixtureError (''Unable to resolve fixture '' @ [CHR 0x27] @ fn_name g @ [CHR 0x27]) e),
           s1\<lparr>calls := calls s1 @ [(fresh_fixture t g, kw)], world := w'\<rparr>)"
    by (simp add: resolve_children_append)
  with dependency(2) show ?case
    by (simp add: resolve_single_fixture_miss_children [OF dependency(1)])
qed

lemmas run_defs =
  resolve_args_def has_deps_def deps_def get_default_args_def resolve_arg_def substitute_each_def
  Each_getitem_def resolve_single_fixture.simps cache_hit_def key_def scope_def fixture_name_def
  fixture_deps_def Fixture_init_def call_factory_def store_result_def cache_fixture_def
  resolve_fixture_values_def fixture_error_message_def fresh_fixture_def Let_def
  example_test_def empty_run_def

lemmas example_defs =
  test_each_3_3_def test_each_2_3_def test_plain_def test_a_def test_b_def
  test_broken_then_each_def test_literal_then_each_def cached_seven_def warm_run_def
  example_uuid_def cached_a_def warm_a_run_def after_test_a_flaky_def stuck_uuid_def


section \<open>Parameterisation: claims C4, C5 and C6\<close>

text \<open>
  Claim C6. \<open>is_parameterised\<close> is true exactly when some default argument of the test is an
  \<open>Each\<close>; for a test with no \<open>Each\<close> among its default arguments it is false and
  \<open>get_parameterised_instances\<close> returns the one-element list holding the test itself, same
  id included, and draws no new id.
\<close>

theorem not_parameterised_returns_self:
  "(is_parameterised t \<longleftrightarrow> (\<exists>n args. (n, Some (Each args)) \<in> set (f_params (fn t))))
   \<and> ((\<forall>n args. (n, Some (Each args)) \<notin> set (f_params (fn t)))
        \<longrightarrow> \<not> is_parameterised t \<and> get_parameterised_instances uuid t k = (Inr [t], k))"
  by (simp add: is_parameterised_iff get_parameterised_instances_def)

text \<open>The claim at \<open>test_plain\<close>, which has no \<open>Each\<close>, and at \<open>test_each_3_3\<close>, which has.\<close>

theorem not_parameterised_returns_self_witness:
  "\<not> is_parameterised test_plain
   \<and> get_parameterised_instances example_uuid test_plain 0 = (Inr [test_plain], 0)
   \<and> is_parameterised test_each_3_3"
  using not_parameterised_returns_self [of test_plain example_uuid 0]
        not_parameterised_returns_self [of test_each_3_3 example_uuid 0]
  by (auto simp: example_defs example_test_def)

text \<open>
  Claim C5. When two \<open>Each\<close> default arguments of a test differ in length,
  \<open>get_parameterised_instances\<close> raises \<open>ParameterisationError\<close>, its message starts with
  the name of the test, and no instance is produced (no id is drawn).
\<close>

theorem unequal_each_lengths_raise:
  assumes "(m1, Some (Each a1)) \<in> set (f_params (fn t))"
      and "(m2, Some (Each a2)) \<in> set (f_params (fn t))"
      and "length a1 \<noteq> length a2"
  shows "get_parameterised_instances uuid t k
           = (Inl (ParameterisationError (parameterisation_message t)), k)
         \<and> parameterisation_message t
           = ''The test '' @ name t @ ''/'' @ format_optional (description t)
               @ '' is parameterised incorrectly. Please ensure all instances of ''
               @ [CHR 0x27] @ ''each'' @ [CHR 0x27] @ '' in the test signature are of equal length.''"
proof -
  have "is_parameterised t" using assms(1) by (auto simp: is_parameterised_iff)
  then show ?thesis
    using find_number_differ [OF assms]
    by (simp add: get_parameterised_instances_def parameterisation_message_def)
qed

text \<open>The claim at \<open>test_each_2_3\<close>, whose \<open>Each\<close> arguments have lengths 2 and 3.\<close>

theorem unequal_each_lengths_raise_witness:
  "get_parameterised_instances example_uuid test_each_2_3 0
     = (Inl (ParameterisationError
          (''The test test_bad/None is parameterised incorrectly. Please ensure all instances of ''
             @ [CHR 0x27] @ ''each'' @ [CHR 0x27] @ '' in the test signature are of equal length.'')), 0)"
  using unequal_each_lengths_raise [of "''a''" "[Literal 1, Literal 2]" test_each_2_3
               "''b''" "[Literal 4, Literal 5, Literal 6]" example_uuid 0]
  by (simp add: example_defs example_test_def name_def)




section \<open>Resolution: claims C1, C2, C3, C7, C8 and C10\<close>

text \<open>
  Claim C1, amended. When \<open>resolve_args\<close> returns, its dict maps the name of an argument
  that is a fixture function (after an \<open>Each\<close> has given way to its item) to the \<open>Fixture\<close>
  object that \<open>_resolve_single_fixture\<close> returned for it, in the state left by the arguments
  before it, and the name of any other argument to the argument itself. The factory's value
  is the \<open>resolved_val\<close> of that object, not the entry of the dict.
  The third premise holds of every Python signature: parameter names do not repeat.
\<close>

theorem resolve_args_maps_fixture_to_Fixture:
  assumes "resolve_args t iteration s = (Inr r, s')"
      and "get_default_args t = pre @ (n, arg) # post"
      and "n \<notin> fst ` set post"
  shows "\<exists>a r1 s1. substitute_each iteration arg = Inr a
           \<and> resolve_loop t iteration pre [] s = (Inr r1, s1)
           \<and> (case a of
                 FixtureFactory f \<Rightarrow>
                   \<exists>fx s2. resolve_single_fixture t f s1 = (Inr fx, s2)
                             \<and> map_of r n = Some (Resolved_Fixture fx)
               | _ \<Rightarrow> map_of r n = Some (Unchanged a))"
proof -
  from assms(1) resolve_args_loop [OF assms(2)]
  have l: "resolve_loop t iteration (pre @ (n, arg) # post) [] s = (Inr r, s')" by simp
  then obtain r1 s1 where
    p: "resolve_loop t iteration pre [] s = (Inr r1, s1)" and
    q: "resolve_loop t iteration ((n, arg) # post) r1 s1 = (Inr r, s')"
    by (auto simp: resolve_loop_append split: prod.splits sum.splits)
  from q obtain x s2 where
    x: "resolve_arg t iteration arg s1 = (Inr x, s2)" and
    rest: "resolve_loop t iteration post (AList.update n x r1) s2 = (Inr r, s')"
    by (auto split: prod.splits sum.splits)
  from resolve_loop_keeps [OF rest assms(3)] have m: "map_of r n = Some x"
    by (simp add: AList.update_conv')
  from resolve_arg_cases [OF x] obtain a where
    a: "substitute_each iteration arg = Inr a" and
    c: "(case a of
           FixtureFactory f \<Rightarrow> \<exists>fx. resolve_single_fixture t f s1 = (Inr fx, s2) \<and> x = Resolved_Fixture fx
         | _ \<Rightarrow> x = Unchanged a \<and> s2 = s1)"
    by blast
  have "(case a of
           FixtureFactory f \<Rightarrow>
             \<exists>fx s2. resolve_single_fixture t f s1 = (Inr fx, s2) \<and> map_of r n = Some (Resolved_Fixture fx)
         | _ \<Rightarrow> map_of r n = Some (Unchanged a))"
    using c m by (cases a) auto
  with a p show ?thesis by blast
qed

text \<open>The amended claim at \<open>test_plain\<close>, argument \<open>x\<close>, in a run that starts empty.\<close>

theorem resolve_args_maps_fixture_to_Fixture_witness:
  "\<exists>fx s2. resolve_single_fixture test_plain seven empty_run = (Inr fx, s2)
      \<and> map_of (projr (fst (resolve_args test_plain 0 empty_run))) ''x'' = Some (Resolved_Fixture fx)"
proof -
  let ?r = "[(''x'', Resolved_Fixture
                      \<lparr>factory = seven, gen = None, resolved_val = Some 7,
                       last_resolved_test_id = Some ''id-plain'',
                       last_resolved_module_name = Some ''mod_a''\<rparr>),
            (''y'', Unchanged (Literal 5 :: (int, string, unit, nat) pyval))]"
  have e: "fst (resolve_args test_plain 0 empty_run) = Inr ?r"
    by (simp add: run_defs example_defs seven_def)
  then obtain s' where run: "resolve_args test_plain 0 empty_run = (Inr ?r, s')"
    by (cases "resolve_args test_plain 0 empty_run") simp
  have d: "get_default_args test_plain
             = [] @ (''x'', FixtureFactory seven) # [(''y'', Literal 5)]"
    by (simp add: get_default_args_def example_defs example_test_def)
  have nn: "''x'' \<notin> fst ` set [(''y'', Literal 5 :: (int, string, unit, nat) pyval)]" by simp
  from resolve_args_maps_fixture_to_Fixture [OF run d nn]
  have "\<exists>fx s2. resolve_single_fixture test_plain seven empty_run = (Inr fx, s2)
                  \<and> map_of ?r ''x'' = Some (Resolved_Fixture fx)"
    by (auto simp: substitute_each_def)
  then show ?thesis by (simp only: e sum.sel)
qed

text \<open>
  Claim C1 as stated fails: for the fixture argument \<open>x\<close> of \<open>test_plain\<close>, whose factory
  returns 7, the dict holds the \<open>Fixture\<close> object, not the value 7.
\<close>

theorem resolve_args_gives_Fixture_not_value:
  "fst (resolve_args test_plain 0 empty_run)
     = Inr [(''x'', Resolved_Fixture
                      \<lparr>factory = seven, gen = None, resolved_val = Some 7,
                       last_resolved_test_id = Some ''id-plain'',
                       last_resolved_module_name = Some ''mod_a''\<rparr>),
            (''y'', Unchanged (Literal 5))]
   \<and> fst (resolve_args test_plain 0 empty_run)
     \<noteq> Inr [(''x'', Unchanged (Literal 7)), (''y'', Unchanged (Literal 5))]"
  by (simp add: run_defs example_defs seven_def)

text \<open>
  Claim C2, amended. Resolving a fixture function against a cache: when the cache has an
  entry under the function's key and the scope rule validates, the cached \<open>Fixture\<close> is
  returned and nothing changes (no factory is called; the cache and the world stay as they
  are). Otherwise the dependencies are resolved and the factory is called with their values.
  When it returns, the resolution returns a new \<open>Fixture\<close> that holds the value the
  factory returned, and this \<open>Fixture\<close> is now the entry under the key; a resolution that
  returns on a miss has come about in this way. When the factory or a dependency raises,
  nothing is written under the key: the cache is as the dependencies left it, and an entry
  that was under the key stays.
\<close>

theorem cache_hit_reused_miss_overwritten:
  "(\<forall>cached. cache s (fn_key f) = Some cached \<and> scope_rule_validates t f cached
       \<longrightarrow> resolve_single_fixture t f s = (Inr cached, s))
   \<and> ((cache s (fn_key f) = None
        \<or> (\<exists>cached. cache s (fn_key f) = Some cached \<and> \<not> scope_rule_validates t f cached))
       \<longrightarrow> (\<forall>cr s1 v g w'.
               resolve_children t (apply_defaults (fn_params f)) [] s = (Inr cr, s1)
               \<and> factory_returns f (resolve_fixture_values cr) (world s1) v g w'
               \<longrightarrow> resolve_single_fixture t f s =
                     (Inr ((fresh_fixture t f)\<lparr>gen := g, resolved_val := Some v\<rparr>),
                      s1\<lparr>calls := calls s1 @ [(fresh_fixture t f, resolve_fixture_values cr)],
                          world := w',
                          cache := (cache s1)(fn_key f \<mapsto>
                                      (fresh_fixture t f)\<lparr>gen := g, resolved_val := Some v\<rparr>)\<rparr>))
         \<and> (\<forall>fx s'. resolve_single_fixture t f s = (Inr fx, s')
               \<longrightarrow> (\<exists>cr s1 v g.
                      resolve_children t (apply_defaults (fn_params f)) [] s = (Inr cr, s1)
                      \<and> factory_returns f (resolve_fixture_values cr) (world s1) v g (world s')
                      \<and> fx = (fresh_fixture t f)\<lparr>gen := g, resolved_val := Some v\<rparr>
                      \<and> cache s' = (cache s1)(fn_key f \<mapsto> fx)))
         \<and> (\<forall>e s'. resolve_single_fixture t f s = (Inl e, s')
               \<longrightarrow> cache s' = cache (snd (resolve_children t (apply_defaults (fn_params f)) [] s))))"
proof (rule conjI; intro allI impI)
  fix cached
  assume "cache s (fn_key f) = Some cached \<and> scope_rule_validates t f cached"
  then have "cache_hit t (Fixture_init f) (cache s) = Some cached"
    by (simp add: cache_hit_rule)
  then show "resolve_single_fixture t f s = (Inr cached, s)"
    by (rule resolve_single_fixture_hit)
next
  assume "cache s (fn_key f) = None
        \<or> (\<exists>cached. cache s (fn_key f) = Some cached \<and> \<not> scope_rule_validates t f cached)"
  then have miss: "cache_hit t (Fixture_init f) (cache s) = None"
    by (auto simp: cache_hit_rule)
  have 1: "resolve_single_fixture t f s =
             (Inr ((fresh_fixture t f)\<lparr>gen := g, resolved_val := Some v\<rparr>),
              s1\<lparr>calls := calls s1 @ [(fresh_fixture t f, resolve_fixture_values cr)],
                  world := w',
                  cache := (cache s1)(fn_key f \<mapsto>
                              (fresh_fixture t f)\<lparr>gen := g, resolved_val := Some v\<rparr>)\<rparr>)"
    if "resolve_children t (apply_defaults (fn_params f)) [] s = (Inr cr, s1)
          \<and> factory_returns f (resolve_fixture_values cr) (world s1) v g w'"
    for cr s1 v g w'
    using that resolve_miss_returns [OF miss] by blast
  have 2: "\<exists>cr s1 v g.
              resolve_children t (apply_defaults (fn_params f)) [] s = (Inr cr, s1)
              \<and> factory_returns f (resolve_fixture_values cr) (world s1) v g (world s')
              \<and> fx = (fresh_fixture t f)\<lparr>gen := g, resolved_val := Some v\<rparr>
              \<and> cache s' = (cache s1)(fn_key f \<mapsto> fx)"
    if r: "resolve_single_fixture t f s = (Inr fx, s')" for fx s'
  proof -
    obtain rc s1 where rc: "resolve_children t (apply_defaults (fn_params f)) [] s = (rc, s1)"
      by (cases "resolve_children t (apply_defaults (fn_params f)) [] s")
    from r rc resolve_single_fixture_miss_children [OF miss] obtain cr where
      cr: "rc = Inr cr" and
      st: "store_result (call_factory (fresh_fixture t f) (resolve_fixture_values cr) s1) = (Inr fx, s')"
      by (cases rc) auto
    from store_call_cases [OF st] have
      cf: "call_factory (fresh_fixture t f) (resolve_fixture_values cr) s1
             = (Inr fx, s'\<lparr>cache := cache s1\<rparr>)" and
      ch: "cache s' = (cache s1)(fn_key f \<mapsto> fx)"
      by (simp_all add: fresh_fixture_simps)
    from call_factory_Inr_returns [OF cf] obtain v g where
      "factory_returns f (resolve_fixture_values cr) (world s1) v g (world s')"
      "fx = (fresh_fixture t f)\<lparr>gen := g, resolved_val := Some v\<rparr>"
      by auto
    with rc cr ch show ?thesis by blast
  qed
  have 3: "cache s' = cache (snd (resolve_children t (apply_defaults (fn_params f)) [] s))"
    if "resolve_single_fixture t f s = (Inl e, s')" for e s'
    using resolve_miss_error [OF miss that] .
  from 1 2 3
  show "(\<forall>cr s1 v g w'.
               resolve_children t (apply_defaults (fn_params f)) [] s = (Inr cr, s1)
               \<and> factory_returns f (resolve_fixture_values cr) (world s1) v g w'
               \<longrightarrow> resolve_single_fixture t f s =
                     (Inr ((fresh_fixture t f)\<lparr>gen := g, resolved_val := Some v\<rparr>),
                      s1\<lparr>calls := calls s1 @ [(fresh_fixture t f, resolve_fixture_values cr)],
                          world := w',
                          cache := (cache s1)(fn_key f \<mapsto>
                                      (fresh_fixture t f)\<lparr>gen := g, resolved_val := Some v\<rparr>)\<rparr>))
         \<and> (\<forall>fx s'. resolve_single_fixture t f s = (Inr fx, s')
               \<longrightarrow> (\<exists>cr s1 v g.
                      resolve_children t (apply_defaults (fn_params f)) [] s = (Inr cr, s1)
                      \<and> factory_returns f (resolve_fixture_values cr) (world s1) v g (world s')
                      \<and> fx = (fresh_fixture t f)\<lparr>gen := g, resolved_val := Some v\<rparr>
                      \<and> cache s' = (cache s1)(fn_key f \<mapsto> fx)))
         \<and> (\<forall>e s'. resolve_single_fixture t f s = (Inl e, s')
               \<longrightarrow> cache s' = cache (snd (resolve_children t (apply_defaults (fn_params f)) [] s)))"
    by blast
qed

text \<open>
  The amended claim at a cache that holds \<open>seven\<close>, of scope \<open>Test\<close>, as resolved for the
  test with id \<open>id-a\<close>: a hit for that test, a miss for the test with id \<open>id-b\<close>, whose
  resolution returns the value 7 of a new call; and at \<open>broken\<close>, a miss that raises.
\<close>

theorem cache_hit_reused_miss_overwritten_witness:
  "resolve_single_fixture (test_a seven) seven warm_run = (Inr cached_seven, warm_run)
   \<and> resolve_single_fixture (test_b seven) seven warm_run
       = (Inr ((fresh_fixture (test_b seven) seven)\<lparr>gen := None, resolved_val := Some 7\<rparr>),
          warm_run\<lparr>calls := [(fresh_fixture (test_b seven) seven, [])], world := 2,
                    cache := [''fixtures.seven'' \<mapsto>
                       (fresh_fixture (test_b seven) seven)\<lparr>gen := None, resolved_val := Some 7\<rparr>]\<rparr>)
   \<and> (\<exists>v g. factory_returns seven [] 1 v g 2)
   \<and> cache (snd (resolve_single_fixture (test_a broken) broken empty_run)) = cache empty_run"
proof -
  note c2 = cache_hit_reused_miss_overwritten
  have k: "fn_key seven = ''fixtures.seven''" by (simp add: seven_def)
  have h: "cache warm_run (fn_key seven) = Some cached_seven
             \<and> scope_rule_validates (test_a seven) seven cached_seven"
    by (simp add: k warm_run_def scope_rule_validates_def cached_seven_def test_a_def example_test_def)
       (simp add: seven_def)
  have m: "cache warm_run (fn_key seven) = None
             \<or> (\<exists>cached. cache warm_run (fn_key seven) = Some cached
                   \<and> \<not> scope_rule_validates (test_b seven) seven cached)"
    by (simp add: k warm_run_def scope_rule_validates_def cached_seven_def test_b_def example_test_def)
       (simp add: seven_def)
  have mb: "cache empty_run (fn_key broken) = None
             \<or> (\<exists>cached. cache empty_run (fn_key broken) = Some cached
                   \<and> \<not> scope_rule_validates (test_a broken) broken cached)"
    by (simp add: empty_run_def)
  from c2 [where s = warm_run and f = seven and t = "test_a seven"] h
  have 1: "resolve_single_fixture (test_a seven) seven warm_run = (Inr cached_seven, warm_run)"
    by blast
  have p: "resolve_children (test_b seven) (apply_defaults (fn_params seven)) [] warm_run
               = (Inr [], warm_run)
           \<and> factory_returns seven (resolve_fixture_values []) (world warm_run) 7 None 2"
    by (simp add: seven_def factory_returns_def resolve_fixture_values_def warm_run_def)
  from c2 [where s = warm_run and f = seven and t = "test_b seven", THEN conjunct2, rule_format,
             OF m, THEN conjunct1, rule_format, OF p]
  have 2: "resolve_single_fixture (test_b seven) seven warm_run
       = (Inr ((fresh_fixture (test_b seven) seven)\<lparr>gen := None, resolved_val := Some 7\<rparr>),
          warm_run\<lparr>calls := [(fresh_fixture (test_b seven) seven, [])], world := 2,
                    cache := [''fixtures.seven'' \<mapsto>
                       (fresh_fixture (test_b seven) seven)\<lparr>gen := None, resolved_val := Some 7\<rparr>]\<rparr>)"
    by (simp add: resolve_fixture_values_def k) (simp add: warm_run_def)
  from c2 [where s = warm_run and f = seven and t = "test_b seven", THEN conjunct2, rule_format,
             OF m, THEN conjunct2, THEN conjunct1, rule_format, OF 2]
  have 3: "\<exists>v g. factory_returns seven [] 1 v g 2"
    using p by (auto simp: resolve_fixture_values_def warm_run_def)
  obtain r s' where run: "resolve_single_fixture (test_a broken) broken empty_run = (r, s')"
    by (cases "resolve_single_fixture (test_a broken) broken empty_run")
  have "\<exists>e. fst (resolve_single_fixture (test_a broken) broken empty_run) = Inl e"
    by (simp add: run_defs example_defs broken_def)
  with run obtain e where e: "resolve_single_fixture (test_a broken) broken empty_run = (Inl e, s')"
    by auto
  from c2 [where s = empty_run and f = broken and t = "test_a broken", THEN conjunct2, rule_format,
             OF mb, THEN conjunct2, THEN conjunct2, rule_format, OF e]
  have 4: "cache (snd (resolve_single_fixture (test_a broken) broken empty_run)) = cache empty_run"
    unfolding e by (simp add: broken_def)
  from 1 2 3 4 show ?thesis by blast
qed

text \<open>
  Claim C2 as stated fails where the factory raises on a miss. After \<open>test_a flaky\<close> the
  cache holds the entry of \<open>flaky\<close> resolved for the test with id \<open>id-a\<close>. For the test with
  id \<open>id-b\<close> the scope rule fails, the factory is called again and raises, and the entry
  under the key is not overwritten: it is still the one resolved for \<open>id-a\<close>.
\<close>

theorem miss_that_raises_overwrites_nothing:
  "cache after_test_a_flaky ''fixtures.flaky''
     = Some \<lparr>factory = flaky, gen = None, resolved_val = Some 1,
             last_resolved_test_id = Some ''id-a'', last_resolved_module_name = Some ''mod_a''\<rparr>
   \<and> \<not> scope_rule_validates (test_b flaky) flaky
          \<lparr>factory = flaky, gen = None, resolved_val = Some 1,
           last_resolved_test_id = Some ''id-a'', last_resolved_module_name = Some ''mod_a''\<rparr>
   \<and> fst (resolve_single_fixture (test_b flaky) flaky after_test_a_flaky)
       = Inl (FixtureError (''Unable to resolve fixture '' @ [CHR 0x27] @ ''flaky'' @ [CHR 0x27]) ''boom'')
   \<and> cache (snd (resolve_single_fixture (test_b flaky) flaky after_test_a_flaky)) ''fixtures.flaky''
       = Some \<lparr>factory = flaky, gen = None, resolved_val = Some 1,
               last_resolved_test_id = Some ''id-a'', last_resolved_module_name = Some ''mod_a''\<rparr>"
  by (simp add: run_defs example_defs scope_rule_validates_def flaky_def)

text \<open>
  Claim C7. Every factory call made while a fixture is resolved is made on a \<open>Fixture\<close>
  object that already carries the id and the module name of the requesting test and has no
  resolved value yet. On a cache miss that returns, the last of these calls is the call of the
  fixture's own factory, on the object built and stamped for it, and the \<open>Fixture\<close>
  returned carries the same id and module name.
\<close>

theorem metadata_set_before_factory_call:
  assumes "resolve_single_fixture t f s = (r, s')"
  shows "\<exists>new. calls s' = calls s @ new
           \<and> (\<forall>c \<in> set new. last_resolved_test_id (fst c) = Some (test_id t)
                   \<and> last_resolved_module_name (fst c) = Some (module_name t)
                   \<and> resolved_val (fst c) = None)
           \<and> (\<forall>fx. cache_hit t (Fixture_init f) (cache s) = None \<and> r = Inr fx
                 \<longrightarrow> new \<noteq> [] \<and> fst (last new) = fresh_fixture t f
                     \<and> last_resolved_test_id fx = Some (test_id t)
                     \<and> last_resolved_module_name fx = Some (module_name t))"
proof -
  from resolve_calls(1) [OF assms] obtain new where
    n: "calls s' = calls s @ new" and
    inv: "\<forall>c \<in> set new. last_resolved_test_id (fst c) = Some (test_id t)
                   \<and> last_resolved_module_name (fst c) = Some (module_name t)
                   \<and> resolved_val (fst c) = None"
    by blast
  have "new \<noteq> [] \<and> fst (last new) = fresh_fixture t f
          \<and> last_resolved_test_id fx = Some (test_id t)
          \<and> last_resolved_module_name fx = Some (module_name t)"
    if miss: "cache_hit t (Fixture_init f) (cache s) = None" and fx: "r = Inr fx" for fx
  proof -
    from resolve_miss_result [OF miss] assms fx obtain kw s1 new1 where
      st: "store_result (call_factory (fresh_fixture t f) kw s1) = (Inr fx, s')" and
      n1: "calls s1 = calls s @ new1"
      by blast
    from store_call_cases [OF st] have
      c: "calls s' = calls s1 @ [(fresh_fixture t f, kw)]" and
      cf: "call_factory (fresh_fixture t f) kw s1 = (Inr fx, s'\<lparr>cache := cache s1\<rparr>)"
      by simp_all
    from c n n1 have "new = new1 @ [(fresh_fixture t f, kw)]" by simp
    then show ?thesis using call_factory_Inr [OF cf] by (simp add: fresh_fixture_simps)
  qed
  with n inv show ?thesis by blast
qed

text \<open>The claim at \<open>fixture_b\<close>, which depends on \<open>fixture_c\<close>, resolved in a run that starts empty.\<close>

theorem metadata_set_before_factory_call_witness:
  "\<exists>new. calls (snd (resolve_single_fixture (test_a fixture_b) fixture_b empty_run))
            = calls empty_run @ new
      \<and> new \<noteq> [] \<and> fst (last new) = fresh_fixture (test_a fixture_b) fixture_b
      \<and> (\<forall>c \<in> set new. last_resolved_test_id (fst c) = Some ''id-a'')"
proof -
  obtain r s' where run: "resolve_single_fixture (test_a fixture_b) fixture_b empty_run = (r, s')"
    by (cases "resolve_single_fixture (test_a fixture_b) fixture_b empty_run")
  have "\<exists>fx. fst (resolve_single_fixture (test_a fixture_b) fixture_b empty_run) = Inr fx"
    by (simp add: run_defs example_defs fixture_b_def fixture_c_def)
  with run obtain fx where r: "r = Inr fx" by auto
  have miss: "cache_hit (test_a fixture_b) (Fixture_init fixture_b) (cache empty_run) = None"
    by (simp add: cache_hit_def empty_run_def)
  have i: "test_id (test_a fixture_b) = ''id-a''" by (simp add: test_a_def example_test_def)
  from metadata_set_before_factory_call [OF run] miss r i run show ?thesis by auto
qed

text \<open>
  Claim C3, amended. Let an argument of a test be a fixture function, and let the factory
  of that fixture, or of a fixture it depends on at any depth, raise the \<open>Exception\<close> \<open>e\<close>
  when the resolution calls it. Then \<open>resolve_args\<close> raises a \<open>FixtureError\<close> that names
  the fixture whose factory raised and whose cause is \<open>e\<close>, and the failed resolution stores
  nothing: the cache afterwards is the cache as it was when the factory was called. (An entry
  that an earlier resolution left under the key is still there.) And whenever
  \<open>resolve_args\<close> raises a \<open>FixtureError\<close> with cause \<open>e\<close>, the last factory called
  raised \<open>e\<close> and is the one the message names.
\<close>

theorem failing_factory_raises_FixtureError:
  "(\<forall>before n arg rest f r0 s0 g kw s1 w'.
       get_default_args t = before @ (n, arg) # rest
       \<and> substitute_each iteration arg = Inr (FixtureFactory f)
       \<and> resolve_loop t iteration before [] s = (Inr r0, s0)
       \<and> raises_in t f s0 g kw s1 e w'
     \<longrightarrow> resolve_args t iteration s =
           (Inl (FixtureError (''Unable to resolve fixture '' @ [CHR 0x27] @ fn_name g @ [CHR 0x27]) e),
            s1\<lparr>calls := calls s1 @ [(fresh_fixture t g, kw)], world := w'\<rparr>))
   \<and> (\<forall>m s'. resolve_args t iteration s = (Inl (FixtureError m e), s')
        \<longrightarrow> (\<exists>fx kw w. calls s' \<noteq> [] \<and> last (calls s') = (fx, kw)
               \<and> m = ''Unable to resolve fixture '' @ [CHR 0x27] @ fn_name (factory fx) @ [CHR 0x27]
               \<and> factory_raises (factory fx) kw w e (world s')))"
proof (rule conjI; intro allI impI)
  fix before n arg rest f r0 s0 g kw s1 w'
  assume h: "get_default_args t = before @ (n, arg) # rest
       \<and> substitute_each iteration arg = Inr (FixtureFactory f)
       \<and> resolve_loop t iteration before [] s = (Inr r0, s0)
       \<and> raises_in t f s0 g kw s1 e w'"
  let ?s2 = "s1\<lparr>calls := calls s1 @ [(fresh_fixture t g, kw)], world := w'\<rparr>"
  let ?err = "FixtureError (''Unable to resolve fixture '' @ [CHR 0x27] @ fn_name g @ [CHR 0x27]) e"
  from h have "raises_in t f s0 g kw s1 e w'" by simp
  from raises_in_resolve [OF this] have "resolve_single_fixture t f s0 = (Inl ?err, ?s2)" .
  then have "resolve_arg t iteration arg s0 = (Inl ?err, ?s2)"
    using h by (simp add: resolve_arg_def)
  with h show "resolve_args t iteration s = (Inl ?err, ?s2)"
    by (simp add: resolve_args_loop [of t before "(n, arg)" rest] resolve_loop_append)
next
  fix m s'
  assume "resolve_args t iteration s = (Inl (FixtureError m e), s')"
  then have "resolve_loop t iteration (get_default_args t) [] s = (Inl (FixtureError m e), s')"
    by (simp add: resolve_args_def split: if_splits)
  from resolve_loop_error_origin [OF this]
  show "\<exists>fx kw w. calls s' \<noteq> [] \<and> last (calls s') = (fx, kw)
               \<and> m = ''Unable to resolve fixture '' @ [CHR 0x27] @ fn_name (factory fx) @ [CHR 0x27]
               \<and> factory_raises (factory fx) kw w e (world s')"
    by (simp add: fixture_error_message_def fixture_name_def)
qed

text \<open>
  The amended claim at \<open>test_a broken_chain_a\<close>: the fixture depends on
  \<open>broken_chain_b\<close>, which depends on \<open>broken\<close>, whose factory raises. The error names
  \<open>broken\<close>, and neither of the other two factories is called.
\<close>

theorem failing_factory_raises_FixtureError_witness:
  "resolve_args (test_a broken_chain_a) 0 empty_run
     = (Inl (FixtureError (''Unable to resolve fixture '' @ [CHR 0x27] @ ''broken'' @ [CHR 0x27]) ''boom''),
        empty_run\<lparr>calls := [(fresh_fixture (test_a broken_chain_a) broken, [])], world := 1\<rparr>)
   \<and> (\<exists>fx kw w. last (calls (snd (resolve_args (test_a broken_chain_a) 0 empty_run))) = (fx, kw)
         \<and> factory_raises (factory fx) kw w ''boom''
              (world (snd (resolve_args (test_a broken_chain_a) 0 empty_run))))"
proof -
  let ?t = "test_a broken_chain_a"
  note c3 = failing_factory_raises_FixtureError [where t = ?t and iteration = 0 and s = empty_run
              and e = "''boom''"]
  have miss: "cache_hit ?t (Fixture_init f) (cache empty_run) = None" for f
    by (simp add: cache_hit_def empty_run_def)
  have nil: "resolve_children ?t [] [] empty_run = (Inr [], empty_run)" by simp
  have ch: "resolve_children ?t (apply_defaults (fn_params broken)) [] empty_run
              = (Inr [], empty_run)"
    by (simp add: broken_def)
  have fr: "factory_raises broken
              (resolve_fixture_values ([] :: (string \<times> (int, string, unit, nat) Fixture) list))
              (world empty_run) ''boom'' 1"
    by (simp add: broken_def factory_raises_def empty_run_def)
  from raises_in.own_factory [OF miss ch fr]
  have r3: "raises_in ?t broken empty_run broken [] empty_run ''boom'' 1"
    by (simp add: resolve_fixture_values_def)
  have "apply_defaults (fn_params broken_chain_b) = [] @ (''c'', broken) # []"
    by (simp add: broken_chain_b_def)
  from raises_in.dependency [OF miss this nil r3]
  have r2: "raises_in ?t broken_chain_b empty_run broken [] empty_run ''boom'' 1" .
  have "apply_defaults (fn_params broken_chain_a) = [] @ (''b'', broken_chain_b) # []"
    by (simp add: broken_chain_a_def)
  from raises_in.dependency [OF miss this nil r2]
  have r1: "raises_in ?t broken_chain_a empty_run broken [] empty_run ''boom'' 1" .
  have h: "get_default_args ?t = [] @ (''x'', FixtureFactory broken_chain_a) # []
       \<and> substitute_each 0 (FixtureFactory broken_chain_a) = Inr (FixtureFactory broken_chain_a)
       \<and> resolve_loop ?t 0 [] [] empty_run = (Inr [], empty_run)
       \<and> raises_in ?t broken_chain_a empty_run broken [] empty_run ''boom'' 1"
    using r1 by (simp add: get_default_args_def test_a_def example_test_def substitute_each_def)
  from c3 [THEN conjunct1, rule_format, OF h]
  have a: "resolve_args ?t 0 empty_run
     = (Inl (FixtureError (''Unable to resolve fixture '' @ [CHR 0x27] @ ''broken'' @ [CHR 0x27]) ''boom''),
        empty_run\<lparr>calls := [(fresh_fixture ?t broken, [])], world := 1\<rparr>)"
    by (simp add: broken_def empty_run_def)
  from c3 [THEN conjunct2, rule_format, OF a]
  have "\<exists>fx kw w. last (calls (snd (resolve_args ?t 0 empty_run))) = (fx, kw)
         \<and> factory_raises (factory fx) kw w ''boom'' (world (snd (resolve_args ?t 0 empty_run)))"
    unfolding a by auto
  with a show ?thesis by blast
qed

text \<open>
  Claim C3 as stated fails in its last part. \<open>flaky\<close>, of scope \<open>Test\<close>, resolves for a
  first test and raises for a second: \<open>resolve_args\<close> raises the \<open>FixtureError\<close>, and
  afterwards the cache still holds, under the key of \<open>flaky\<close>, the entry resolved for the
  first test, with its value 1.
\<close>

theorem failed_resolution_leaves_earlier_entry:
  "fst (resolve_args (test_b flaky) 0 (snd (resolve_args (test_a flaky) 0 empty_run)))
     = Inl (FixtureError (''Unable to resolve fixture '' @ [CHR 0x27] @ ''flaky'' @ [CHR 0x27]) ''boom'')
   \<and> map_option resolved_val
       (cache (snd (resolve_args (test_b flaky) 0 (snd (resolve_args (test_a flaky) 0 empty_run))))
          ''fixtures.flaky'')
     = Some (Some 1)"
  by (simp add: run_defs test_a_def test_b_def flaky_def)




text \<open>
  Claim C10, amended. \<open>resolve_args\<close> makes no bounds check: for a test with an \<open>Each\<close>
  default argument of length \<open>n\<close> and an iteration of at least \<open>n\<close> it always raises. It
  raises \<open>IndexError\<close> when the arguments before that \<open>Each\<close> resolve without raising;
  when one of them raises, \<open>resolve_args\<close> raises that exception instead.
\<close>

theorem iteration_out_of_range_raises:
  assumes "get_default_args t = pre @ (n, Each args) # post"
      and "int (length args) \<le> iteration"
  shows "(\<forall>r1 s1. resolve_loop t iteration pre [] s = (Inr r1, s1)
            \<longrightarrow> resolve_args t iteration s = (Inl IndexError, s1))
       \<and> (\<forall>e s1. resolve_loop t iteration pre [] s = (Inl e, s1)
            \<longrightarrow> resolve_args t iteration s = (Inl e, s1))"
proof -
  have "resolve_arg t iteration (Each args) s1 = (Inl IndexError, s1)" for s1
    using assms(2) by (simp add: resolve_arg_def substitute_each_def Each_getitem_def Let_def)
  then show ?thesis
    by (simp add: resolve_args_loop [OF assms(1)] resolve_loop_append)
qed

text \<open>
  The amended claim at \<open>test_literal_then_each\<close>, iteration 2 against an \<open>Each\<close> of length
  2, and at \<open>test_broken_then_each\<close>, where the argument before the \<open>Each\<close> raises.
\<close>

theorem iteration_out_of_range_raises_witness:
  "resolve_args test_literal_then_each 2 empty_run = (Inl IndexError, empty_run)
   \<and> (\<exists>s1. resolve_args test_broken_then_each 1 empty_run
         = (Inl (FixtureError (''Unable to resolve fixture '' @ [CHR 0x27] @ ''broken'' @ [CHR 0x27])
                   ''boom''), s1))"
proof -
  have d1: "get_default_args test_literal_then_each
              = [(''y'', Literal 5)] @ (''x'', Each [Literal 1, Literal 2]) # []"
    by (simp add: get_default_args_def example_defs example_test_def)
  have l1: "int (length [Literal 1, Literal 2 :: (int, string, unit, nat) pyval]) \<le> 2" by simp
  have p1: "resolve_loop test_literal_then_each 2 [(''y'', Literal 5)] [] empty_run
              = (Inr [(''y'', Unchanged (Literal 5))], empty_run)"
    by (simp add: resolve_arg_def substitute_each_def)
  have d2: "get_default_args test_broken_then_each
              = [(''f'', FixtureFactory broken)] @ (''x'', Each [Literal 1]) # []"
    by (simp add: get_default_args_def example_defs example_test_def)
  have l2: "int (length [Literal 1 :: (int, string, unit, nat) pyval]) \<le> 1" by simp
  have "fst (resolve_loop test_broken_then_each 1 [(''f'', FixtureFactory broken)] [] empty_run)
              = Inl (FixtureError (''Unable to resolve fixture '' @ [CHR 0x27] @ ''broken'' @ [CHR 0x27])
                   ''boom'')"
    by (simp add: run_defs example_defs broken_def)
  then obtain s1 where
    p2: "resolve_loop test_broken_then_each 1 [(''f'', FixtureFactory broken)] [] empty_run
              = (Inl (FixtureError (''Unable to resolve fixture '' @ [CHR 0x27] @ ''broken'' @ [CHR 0x27])
                   ''boom''), s1)"
    by (cases "resolve_loop test_broken_then_each 1 [(''f'', FixtureFactory broken)] [] empty_run") simp
  from iteration_out_of_range_raises [OF d1 l1, of empty_run] p1
  have 1: "resolve_args test_literal_then_each 2 empty_run = (Inl IndexError, empty_run)" by blast
  from iteration_out_of_range_raises [OF d2 l2, of empty_run] p2
  have "resolve_args test_broken_then_each 1 empty_run
         = (Inl (FixtureError (''Unable to resolve fixture '' @ [CHR 0x27] @ ''broken'' @ [CHR 0x27])
                   ''boom''), s1)" by blast
  with 1 show ?thesis by blast
qed

text \<open>
  Claim C10 as stated fails: in \<open>test_broken_then_each\<close> a fixture whose factory raises
  comes before an \<open>Each\<close> of length 1, and \<open>resolve_args\<close> with iteration 1 raises a
  \<open>FixtureError\<close>, not an \<open>IndexError\<close>.
\<close>

theorem iteration_out_of_range_FixtureError_first:
  "fst (resolve_args test_broken_then_each 1 empty_run)
     = Inl (FixtureError (''Unable to resolve fixture '' @ [CHR 0x27] @ ''broken'' @ [CHR 0x27]) ''boom'')
   \<and> fst (resolve_args test_broken_then_each 1 empty_run) \<noteq> Inl IndexError"
  by (simp add: run_defs example_defs broken_def)

section \<open>The \<open>test\<close> decorator: claim C9\<close>

text \<open>
  Claim C9. Decorating a function with \<open>test(description)\<close>: when the name of the function
  is \<open>_\<close>, the description is put in its metadata (which is created when there is none) and
  the function is appended to the list that \<open>anonymous_tests\<close> keeps for its module, the
  other lists staying as they are; when the name is anything else, the registry and the
  metadata of the function stay as they are. In both cases the wrapper of the function is
  returned.
\<close>

theorem test_registers_only_anonymous:
  "(f_name func = ''_'' \<longrightarrow>
      (\<exists>func' m. test desc func anonymous_tests
            = (wraps func',
               anonymous_tests(f_module func := anonymous_tests (f_module func) @ [func']))
         \<and> f_ward_meta func' = Some m \<and> meta_description m = Some desc
         \<and> f_name func' = f_name func \<and> f_module func' = f_module func
         \<and> f_params func' = f_params func \<and> f_wrapped func' = f_wrapped func))
   \<and> (f_name func \<noteq> ''_'' \<longrightarrow>
        test desc func anonymous_tests = (wraps func, anonymous_tests)
        \<and> f_wrapped (wraps func) = Some func
        \<and> f_ward_meta (wraps func) = f_ward_meta func)"
  by (auto simp: test_def decorator_test_def set_ward_meta_def wraps_def WardMeta_init_def Let_def
           split: option.splits)

text \<open>The claim at a function named \<open>_\<close> and at a function named \<open>test_named\<close>.\<close>

theorem test_registers_only_anonymous_witness:
  "snd (test ''adds'' func_anonymous (\<lambda>m. [])) ''tests.test_mod''
     = [PyFunc ''_'' ''tests.test_mod''
          (Some \<lparr>meta_marker = None, meta_description = Some ''adds'', meta_is_fixture = False\<rparr>)
          [] None]
   \<and> test ''adds'' func_named (\<lambda>m. []) = (wraps func_named, \<lambda>m. [])"
proof -
  have n: "f_name func_anonymous = ''_''" "f_name func_named \<noteq> ''_''"
          "f_module func_anonymous = ''tests.test_mod''"
    by (simp_all add: func_anonymous_def func_named_def)
  from test_registers_only_anonymous [of func_anonymous "''adds''" "\<lambda>m. []"] n
  obtain func' m where
    t: "test ''adds'' func_anonymous (\<lambda>m. [])
          = (wraps func', (\<lambda>m. [])(''tests.test_mod'' := (\<lambda>m. []) ''tests.test_mod'' @ [func']))" and
    f: "f_ward_meta func' = Some m" "meta_description m = Some ''adds''"
       "f_name func' = f_name func_anonymous" "f_module func' = f_module func_anonymous"
       "f_params func' = f_params func_anonymous" "f_wrapped func' = f_wrapped func_anonymous"
    by auto
  have "snd (test ''adds'' func_anonymous (\<lambda>m. [])) ''tests.test_mod''
     = [PyFunc ''_'' ''tests.test_mod''
          (Some \<lparr>meta_marker = None, meta_description = Some ''adds'', meta_is_fixture = False\<rparr>)
          [] None]"
    by (simp add: test_def decorator_test_def func_anonymous_def set_ward_meta_def WardMeta_init_def
          Let_def)
  moreover from test_registers_only_anonymous [of func_named "''adds''" "\<lambda>m. []"] n
  have "test ''adds'' func_named (\<lambda>m. []) = (wraps func_named, \<lambda>m. [])" by simp
  ultimately show ?thesis using t by simp
qed

end
